theory Spec2Isabelle
  imports Complex_Main
begin

section \<open>Photon-ALP conversion in AGN jets: the class \<open>PhotALPs_Jet\<close>\<close>

text \<open>
  A shallow embedding of \<^verbatim>\<open>conversion_Jet.py\<close>. Python floats and the entries of numpy
  arrays are idealised as real (complex) numbers: rounding and overflow are not modelled.
  The special values that numpy arithmetic produces instead of raising (a division by
  zero, the logarithm of a non-positive number) are kept as values of their own, so that
  the places where the source leaves the finite numbers are branches of the model.
\<close>

subsection \<open>Floats with IEEE special values\<close>

datatype xreal = Fin real | PInf | MInf | NaN

text \<open>\<^verbatim>\<open>np.log\<close>: \<open>-inf\<close> at zero and \<open>nan\<close> below it, with a warning only.\<close>

definition np_log :: "real \<Rightarrow> xreal" where
  "np_log x = (if 0 < x then Fin (ln x) else if x = 0 then MInf else NaN)"

text \<open>The product of a finite float with a numpy float.\<close>

definition xscale :: "real \<Rightarrow> xreal \<Rightarrow> xreal" where
  "xscale c y =
     (case y of
        Fin v \<Rightarrow> Fin (c * v)
      | PInf \<Rightarrow> (if 0 < c then PInf else if c < 0 then MInf else NaN)
      | MInf \<Rightarrow> (if 0 < c then MInf else if c < 0 then PInf else NaN)
      | NaN \<Rightarrow> NaN)"

text \<open>
  numpy's division of finite floats: a zero divisor gives an infinity with the sign of the
  dividend, and \<open>0/0\<close> gives \<open>nan\<close>. The zero divisors of this program are \<open>+0.0\<close>: the
  logarithm of \<open>1.0\<close>, and a difference \<open>x - x\<close>.
\<close>

definition np_divide :: "real \<Rightarrow> real \<Rightarrow> xreal" where
  "np_divide a b =
     (if b \<noteq> 0 then Fin (a / b)
      else if 0 < a then PInf else if a < 0 then MInf else NaN)"

definition xdivide :: "xreal \<Rightarrow> xreal \<Rightarrow> xreal" where
  "xdivide x y =
     (case x of
        Fin a \<Rightarrow> (case y of Fin b \<Rightarrow> np_divide a b | PInf \<Rightarrow> Fin 0 | MInf \<Rightarrow> Fin 0 | NaN \<Rightarrow> NaN)
      | PInf \<Rightarrow> (case y of Fin b \<Rightarrow> (if 0 \<le> b then PInf else MInf) | _ \<Rightarrow> NaN)
      | MInf \<Rightarrow> (case y of Fin b \<Rightarrow> (if 0 \<le> b then MInf else PInf) | _ \<Rightarrow> NaN)
      | NaN \<Rightarrow> NaN)"

text \<open>\<^verbatim>\<open>math.ceil\<close> returns a float, and passes \<open>inf\<close> and \<open>nan\<close> through.\<close>

definition math_ceil :: "xreal \<Rightarrow> xreal" where
  "math_ceil x = (case x of Fin v \<Rightarrow> Fin (of_int \<lceil>v\<rceil>) | _ \<Rightarrow> x)"

text \<open>\<^verbatim>\<open>np.arctan\<close> is finite at the infinities; \<^verbatim>\<open>np.cos\<close> and \<^verbatim>\<open>np.sin\<close> are
  \<open>nan\<close> outside the finite numbers.\<close>

definition np_arctan :: "xreal \<Rightarrow> xreal" where
  "np_arctan x =
     (case x of Fin v \<Rightarrow> Fin (arctan v) | PInf \<Rightarrow> Fin (pi / 2)
      | MInf \<Rightarrow> Fin (- (pi / 2)) | NaN \<Rightarrow> NaN)"

fun is_Fin :: "xreal \<Rightarrow> bool" where
  "is_Fin (Fin v) = True"
| "is_Fin x = False"

fun the_Fin :: "xreal \<Rightarrow> real" where
  "the_Fin (Fin v) = v"
| "the_Fin x = 0"

subsection \<open>Exceptions and outcomes\<close>

datatype error =
    ZeroDivisionError
  | ValueError string
  | OverflowError string
  | UnboundLocalError string

text \<open>
  A method either raises, or returns a value, or returns normally while some entry of its
  arrays is \<open>nan\<close> (\<open>ReturnedNaN\<close>): the complex arrays of this embedding hold finite
  numbers only, so that last case is recorded without its value.
\<close>

datatype 'a outcome = Raised error | Returned 'a | ReturnedNaN

definition obind :: "'a outcome \<Rightarrow> ('a \<Rightarrow> 'b outcome) \<Rightarrow> 'b outcome" where
  "obind x f = (case x of Raised e \<Rightarrow> Raised e | Returned a \<Rightarrow> f a | ReturnedNaN \<Rightarrow> ReturnedNaN)"

text \<open>\<^verbatim>\<open>int(x)\<close> on a float truncates, and refuses \<open>nan\<close> and the infinities.\<close>

definition py_int :: "xreal \<Rightarrow> int outcome" where
  "py_int x =
     (case x of
        Fin v \<Rightarrow> Returned (if 0 \<le> v then \<lfloor>v\<rfloor> else \<lceil>v\<rceil>)
      | NaN \<Rightarrow> Raised (ValueError ''cannot convert float NaN to integer'')
      | _ \<Rightarrow> Raised (OverflowError ''cannot convert float infinity to integer''))"

subsection \<open>Arrays\<close>

text \<open>
  \<^verbatim>\<open>np.linspace(start, stop, num)\<close> with the end point included: no sample for
  \<open>num \<le> 0\<close>, \<open>start\<close> alone for \<open>num = 1\<close>, and otherwise
  \<^verbatim>\<open>arange(0, num) * step + start\<close> with \<open>step = (stop - start) / (num - 1)\<close>.
\<close>

definition np_linspace :: "real \<Rightarrow> real \<Rightarrow> int \<Rightarrow> real list" where
  "np_linspace start stop num =
     (if num \<le> 0 then []
      else if num = 1 then [start]
      else map (\<lambda>k. real k * ((stop - start) / of_int (num - 1)) + start) [0..<nat num])"

text \<open>A \<open>3 \<times> 3\<close> matrix; an array of shape \<open>(3,3,Nd)\<close> is a matrix of arrays over the
  domain index, as the source addresses it (\<^verbatim>\<open>T1[0,0,:]\<close>).\<close>

record 'a mat3 =
  m00 :: 'a  m01 :: 'a  m02 :: 'a
  m10 :: 'a  m11 :: 'a  m12 :: 'a
  m20 :: 'a  m21 :: 'a  m22 :: 'a

definition map_mat3 :: "('a \<Rightarrow> 'b) \<Rightarrow> 'a mat3 \<Rightarrow> 'b mat3" where
  "map_mat3 f A =
     \<lparr> m00 = f (m00 A), m01 = f (m01 A), m02 = f (m02 A),
       m10 = f (m10 A), m11 = f (m11 A), m12 = f (m12 A),
       m20 = f (m20 A), m21 = f (m21 A), m22 = f (m22 A) \<rparr>"

definition zip_mat3 :: "('a \<Rightarrow> 'b \<Rightarrow> 'c) \<Rightarrow> 'a mat3 \<Rightarrow> 'b mat3 \<Rightarrow> 'c mat3" where
  "zip_mat3 f A C =
     \<lparr> m00 = f (m00 A) (m00 C), m01 = f (m01 A) (m01 C), m02 = f (m02 A) (m02 C),
       m10 = f (m10 A) (m10 C), m11 = f (m11 A) (m11 C), m12 = f (m12 A) (m12 C),
       m20 = f (m20 A) (m20 C), m21 = f (m21 A) (m21 C), m22 = f (m22 A) (m22 C) \<rparr>"

definition const_mat3 :: "'a \<Rightarrow> 'a mat3" where
  "const_mat3 v =
     \<lparr> m00 = v, m01 = v, m02 = v, m10 = v, m11 = v, m12 = v, m20 = v, m21 = v, m22 = v \<rparr>"

text \<open>\<^verbatim>\<open>np.zeros((3,3,num), np.complex)\<close>, for \<open>num \<ge> 0\<close>.\<close>

definition np_zeros :: "int \<Rightarrow> complex list mat3" where
  "np_zeros num = const_mat3 (replicate (nat num) 0)"

text \<open>\<^verbatim>\<open>A[:,:,i]\<close>, the matrix of domain \<open>i\<close>.\<close>

definition slice :: "'a list mat3 \<Rightarrow> nat \<Rightarrow> 'a mat3" where
  "slice A i = map_mat3 (\<lambda>v. v ! i) A"

text \<open>\<^verbatim>\<open>np.dot\<close> of two \<open>3 \<times> 3\<close> matrices.\<close>

definition dot :: "complex mat3 \<Rightarrow> complex mat3 \<Rightarrow> complex mat3" where
  "dot A C =
     \<lparr> m00 = m00 A * m00 C + m01 A * m10 C + m02 A * m20 C,
       m01 = m00 A * m01 C + m01 A * m11 C + m02 A * m21 C,
       m02 = m00 A * m02 C + m01 A * m12 C + m02 A * m22 C,
       m10 = m10 A * m00 C + m11 A * m10 C + m12 A * m20 C,
       m11 = m10 A * m01 C + m11 A * m11 C + m12 A * m21 C,
       m12 = m10 A * m02 C + m11 A * m12 C + m12 A * m22 C,
       m20 = m20 A * m00 C + m21 A * m10 C + m22 A * m20 C,
       m21 = m20 A * m01 C + m21 A * m11 C + m22 A * m21 C,
       m22 = m20 A * m02 C + m21 A * m12 C + m22 A * m22 C \<rparr>"

definition identity3 :: "complex mat3" where
  "identity3 =
     \<lparr> m00 = 1, m01 = 0, m02 = 0, m10 = 0, m11 = 1, m12 = 0, m20 = 0, m21 = 0, m22 = 1 \<rparr>"

subsection \<open>The object\<close>

text \<open>
  The attributes of a \<open>PhotALPs_Jet\<close> object. The single-letter attributes \<open>B\<close>, \<open>E\<close>,
  \<open>g\<close>, \<open>m\<close>, \<open>n\<close>, \<open>s\<close>, \<open>p\<close>, \<open>r\<close> and the array \<open>Un\<close> carry the suffix \<open>_attr\<close>. The attributes from
  \<open>Dperp\<close> on exist only after the first propagation; before it they are empty here.
\<close>

record state =
  R_BLR :: real
  E_attr :: real
  g_attr :: real
  m_attr :: real
  n_attr :: real
  Rmax :: real
  B_attr :: real
  s_attr :: real
  p_attr :: real
  sens :: real
  Psi :: real
  Nd :: int
  Lcoh :: "real list"
  r_attr :: "real list"
  Br :: "real list"
  nr :: "real list"
  T1 :: "complex list mat3"
  T2 :: "complex list mat3"
  T3 :: "complex list mat3"
  Un_attr :: "complex list mat3"
  Psin :: "real list"
  Dperp :: "real list"
  Dpar :: "real list"
  Dag :: "real list"
  Da :: "real list"
  alph :: "xreal list"
  Dosc :: "real list"
  EW1 :: "real list"
  EW2 :: "real list"
  EW3 :: "real list"

text \<open>The keyword arguments: a dictionary from attribute names to floats.\<close>

type_synonym kwargs = "string \<rightharpoonup> real"

definition kw_get :: "kwargs \<Rightarrow> string \<Rightarrow> real \<Rightarrow> real" where
  "kw_get kw k d = (case kw k of Some v \<Rightarrow> v | None \<Rightarrow> d)"

text \<open>\<^verbatim>\<open>self.__dict__.update(kwargs)\<close>, on the eleven configuration attributes.\<close>

definition dict_update :: "kwargs \<Rightarrow> state \<Rightarrow> state" where
  "dict_update kw self =
     self\<lparr> R_BLR := kw_get kw ''R_BLR'' (R_BLR self),
           E_attr := kw_get kw ''E'' (E_attr self),
           g_attr := kw_get kw ''g'' (g_attr self),
           m_attr := kw_get kw ''m'' (m_attr self),
           n_attr := kw_get kw ''n'' (n_attr self),
           Rmax := kw_get kw ''Rmax'' (Rmax self),
           B_attr := kw_get kw ''B'' (B_attr self),
           s_attr := kw_get kw ''s'' (s_attr self),
           p_attr := kw_get kw ''p'' (p_attr self),
           sens := kw_get kw ''sens'' (sens self),
           Psi := kw_get kw ''Psi'' (Psi self) \<rparr>"

text \<open>The closures \<^verbatim>\<open>self.Bf\<close> and \<^verbatim>\<open>self.nf\<close>, on a radius whose ratio to \<open>R_BLR\<close> is
  positive (where numpy's power is the real power).\<close>

definition Bf :: "state \<Rightarrow> real \<Rightarrow> real" where
  "Bf self x = B_attr self * (x / R_BLR self) powr (- p_attr self)"

definition nf :: "state \<Rightarrow> real \<Rightarrow> real" where
  "nf self x = n_attr self * (x / R_BLR self) powr (- s_attr self)"

text \<open>
  Line 119 of the source: the number of domains, still a float. The quotient is that of
  the real numbers. The float quotient of the source is rounded: where the exact quotient
  is an integer (the ratio \<open>Rmax / R_BLR\<close> an exact power of \<open>sens\<^bsup>-1/p\<^esup>\<close>) it can
  lie just above it, and the source then counts one domain more than this definition.
\<close>

definition domain_count :: "state \<Rightarrow> xreal" where
  "domain_count self =
     math_ceil (xdivide (xscale (- 1 * p_attr self) (np_log (Rmax self / R_BLR self)))
                        (np_log (sens self)))"

text \<open>
  \<^verbatim>\<open>update_params\<close>. The float division \<^verbatim>\<open>self.Rmax/self.R_BLR\<close> raises on a zero
  divisor; \<^verbatim>\<open>np.linspace\<close> converts the count with \<^verbatim>\<open>int\<close>; \<^verbatim>\<open>np.zeros\<close> refuses a
  negative dimension (the source is Python 2 with the numpy of 2013, whose
  \<^verbatim>\<open>np.linspace\<close> has no sample for a negative count; later versions refuse the negative
  count there, with a \<open>ValueError\<close> as well). The arrays are non-empty only for a
  positive count, which needs \<open>sens\<close> positive and not \<open>1\<close>, a positive ratio and
  \<open>p\<close> not zero: there the powers and quotients are those of the real numbers.
\<close>

definition update_params :: "kwargs \<Rightarrow> state \<Rightarrow> state outcome" where
  "update_params kw self0 =
     (let self = dict_update kw self0 in
      if R_BLR self = 0 then Raised ZeroDivisionError
      else
        obind (py_int (domain_count self)) (\<lambda>num.
          let Lcoh' = map (\<lambda>x. R_BLR self * sens self powr (- x / p_attr self) * (1 - sens self))
                          (np_linspace 1 (of_int num) num);
              r' = map (\<lambda>x. R_BLR self * sens self powr (- x / p_attr self))
                       (np_linspace 0 (of_int num) num)
          in
            if num < 0 then Raised (ValueError ''negative dimensions are not allowed'')
            else Returned (self\<lparr> Nd := num, Lcoh := Lcoh', r_attr := r',
                                 Br := map (Bf self) r', nr := map (nf self) r',
                                 T1 := np_zeros num, T2 := np_zeros num,
                                 T3 := np_zeros num, Un_attr := np_zeros num,
                                 Psin := replicate (nat num) (1 * Psi self) \<rparr>)))"

text \<open>\<^verbatim>\<open>__init__\<close>: the defaults, then \<^verbatim>\<open>update_params\<close> on an object without
  attributes.\<close>

definition setdefault :: "string \<Rightarrow> real \<Rightarrow> kwargs \<Rightarrow> kwargs" where
  "setdefault k v kw = (case kw k of None \<Rightarrow> kw(k \<mapsto> v) | Some _ \<Rightarrow> kw)"

definition blank :: state where
  "blank =
     \<lparr> R_BLR = 0, E_attr = 0, g_attr = 0, m_attr = 0, n_attr = 0, Rmax = 0, B_attr = 0,
       s_attr = 0, p_attr = 0, sens = 0, Psi = 0, Nd = 0, Lcoh = [], r_attr = [], Br = [],
       nr = [], T1 = np_zeros 0, T2 = np_zeros 0, T3 = np_zeros 0,
       Un_attr = np_zeros 0,
       Psin = [], Dperp = [], Dpar = [], Dag = [], Da = [], alph = [], Dosc = [],
       EW1 = [], EW2 = [], EW3 = [] \<rparr>"

definition init :: "kwargs \<Rightarrow> state outcome" where
  "init kw =
     update_params
       (setdefault ''Psi'' 0 (setdefault ''sens'' (99 / 100) (setdefault ''p'' 1
        (setdefault ''s'' 2 (setdefault ''B'' (1 / 100) (setdefault ''Rmax'' 1000
        (setdefault ''n'' 100000000 (setdefault ''m'' 1 (setdefault ''g'' 1
        (setdefault ''E'' 1 (setdefault ''R_BLR'' (3 / 10) kw)))))))))))
       blank"

subsection \<open>The per-domain mixing parameters\<close>

text \<open>
  The module \<^verbatim>\<open>deltas\<close> is imported by the source and is not part of it: its four
  functions are parameters. Each is applied to an array element by element.
\<close>

record deltas =
  Delta_pl_kpc :: "real \<Rightarrow> real \<Rightarrow> real"
  Delta_QED_kpc :: "real \<Rightarrow> real \<Rightarrow> real"
  Delta_ag_kpc :: "real \<Rightarrow> real \<Rightarrow> real"
  Delta_a_kpc :: "real \<Rightarrow> real \<Rightarrow> real"

text \<open>Three arrays combined element by element.\<close>

definition map3 :: "('a \<Rightarrow> 'b \<Rightarrow> 'c \<Rightarrow> 'd) \<Rightarrow> 'a list \<Rightarrow> 'b list \<Rightarrow> 'c list \<Rightarrow> 'd list" where
  "map3 f xs ys zs = map (\<lambda>(x, y, z). f x y z) (zip xs (zip ys zs))"

text \<open>The mixing angle of one domain, line 152: the division is numpy's, unguarded.\<close>

definition mixing_angle :: "real \<Rightarrow> real \<Rightarrow> real \<Rightarrow> xreal" where
  "mixing_angle ag par a = xscale (1 / 2) (np_arctan (np_divide (2 * ag) (par - a)))"

text \<open>\<^verbatim>\<open>__setDeltas\<close>. \<^verbatim>\<open>np.ones(int(self.Nd))\<close> refuses a negative length.\<close>

definition setDeltas :: "deltas \<Rightarrow> state \<Rightarrow> state outcome" where
  "setDeltas D self =
     (let Dperp' = map2 (\<lambda>n b. 1 / 1000 * (Delta_pl_kpc D (n * 1000) (E_attr self)
                                  + 2 * Delta_QED_kpc D (b * 1000000) (E_attr self)))
                        (nr self) (Br self);
          Dpar' = map2 (\<lambda>n b. 1 / 1000 * (Delta_pl_kpc D (n * 1000) (E_attr self)
                                  + 7 / 2 * Delta_QED_kpc D (b * 1000000) (E_attr self)))
                       (nr self) (Br self);
          Dag' = map (\<lambda>b. 1 / 1000 * Delta_ag_kpc D (g_attr self) (b * 1000000)) (Br self)
      in
        if Nd self < 0 then Raised (ValueError ''negative dimensions are not allowed'')
        else
          let Da' = map (\<lambda>one. 1 / 1000 * (Delta_a_kpc D (m_attr self) (E_attr self) * one))
                        (replicate (nat (Nd self)) 1)
          in Returned (self\<lparr> Dperp := Dperp', Dpar := Dpar', Dag := Dag', Da := Da',
                              alph := map3 mixing_angle Dag' Dpar' Da',
                              Dosc := map3 (\<lambda>par a ag. sqrt ((par - a)\<^sup>2 + 4 * ag\<^sup>2))
                                           Dpar' Da' Dag' \<rparr>))"

text \<open>\<^verbatim>\<open>__setEW\<close>.\<close>

definition setEW :: "deltas \<Rightarrow> state \<Rightarrow> state outcome" where
  "setEW D self0 =
     obind (setDeltas D self0) (\<lambda>self.
       Returned (self\<lparr> EW1 := Dperp self,
                        EW2 := map3 (\<lambda>par a osc. 1 / 2 * (par + a - osc))
                                    (Dpar self) (Da self) (Dosc self),
                        EW3 := map3 (\<lambda>par a osc. 1 / 2 * (par + a + osc))
                                    (Dpar self) (Da self) (Dosc self) \<rparr>))"

subsection \<open>The projector matrices\<close>

text \<open>
  \<^verbatim>\<open>__setT1n\<close>: three assignments, in the order of the source; the assignment of
  \<^verbatim>\<open>T1[0,1,:]\<close> is commented out there. All arrays of an object have the length \<open>Nd\<close>
  of the last \<^verbatim>\<open>update_params\<close>, so no assignment fails on a shape.
\<close>

definition setT1n :: "state \<Rightarrow> state" where
  "setT1n self =
     (let c = map cos (Psin self);
          s = map sin (Psin self);
          Ta = (T1 self)\<lparr> m00 := map complex_of_real (map2 (*) c c) \<rparr>;
          Tb = Ta\<lparr> m10 := m01 Ta \<rparr>;
          Tc = Tb\<lparr> m11 := map complex_of_real (map2 (*) s s) \<rparr>
      in self\<lparr> T1 := Tc \<rparr>)"

text \<open>
  \<^verbatim>\<open>__setT2n\<close>: the three assignments of the top row are commented out in the source.
  The cosine and sine of a \<open>nan\<close> angle are \<open>nan\<close> and enter \<^verbatim>\<open>T2[1,1,:]\<close>.
\<close>

definition setT2n :: "state \<Rightarrow> state outcome" where
  "setT2n self =
     (if \<not> list_all is_Fin (alph self) then ReturnedNaN
      else
        let c = map cos (Psin self);
            s = map sin (Psin self);
            ca = map (\<lambda>a. cos (the_Fin a)) (alph self);
            sa = map (\<lambda>a. sin (the_Fin a)) (alph self);
            Ta = (T2 self)\<lparr> m10 := m01 (T2 self) \<rparr>;
            Tb = Ta\<lparr> m11 := map complex_of_real (map2 (\<lambda>x y. x * x * y * y) c sa) \<rparr>;
            Tc = Tb\<lparr> m12 := map complex_of_real (map3 (\<lambda>x y z. - 1 * x * y * z) c ca sa) \<rparr>;
            Td = Tc\<lparr> m20 := m02 Tc \<rparr>;
            Te = Td\<lparr> m21 := m12 Td \<rparr>;
            Tf = Te\<lparr> m22 := map complex_of_real (map2 (*) ca ca) \<rparr>
        in Returned (self\<lparr> T2 := Tf \<rparr>))"

text \<open>\<^verbatim>\<open>__setT3n\<close>, likewise.\<close>

definition setT3n :: "state \<Rightarrow> state outcome" where
  "setT3n self =
     (if \<not> list_all is_Fin (alph self) then ReturnedNaN
      else
        let c = map cos (Psin self);
            s = map sin (Psin self);
            ca = map (\<lambda>a. cos (the_Fin a)) (alph self);
            sa = map (\<lambda>a. sin (the_Fin a)) (alph self);
            Ta = (T3 self)\<lparr> m10 := m01 (T3 self) \<rparr>;
            Tb = Ta\<lparr> m11 := map complex_of_real (map2 (\<lambda>x y. x * x * y * y) c ca) \<rparr>;
            Tc = Tb\<lparr> m12 := map complex_of_real (map3 (\<lambda>x y z. x * y * z) c sa ca) \<rparr>;
            Td = Tc\<lparr> m20 := m02 Tc \<rparr>;
            Te = Td\<lparr> m21 := m12 Td \<rparr>;
            Tf = Te\<lparr> m22 := map complex_of_real (map2 (*) sa sa) \<rparr>
        in Returned (self\<lparr> T3 := Tf \<rparr>))"

subsection \<open>The propagators and their chain\<close>

text \<open>\<^verbatim>\<open>np.exp(1.j * EW * self.Lcoh)\<close>, one phase for each domain.\<close>

definition phases :: "real list \<Rightarrow> real list \<Rightarrow> complex list" where
  "phases EW L = map2 (\<lambda>e l. exp (\<i> * complex_of_real e * complex_of_real l)) EW L"

text \<open>\<^verbatim>\<open>__setUn\<close>: the phases multiply along the domain index of each entry.\<close>

definition setUn :: "state \<Rightarrow> state" where
  "setUn self =
     self\<lparr> Un_attr :=
       zip_mat3 (map2 (+))
         (zip_mat3 (map2 (+))
            (map_mat3 (map2 (*) (phases (EW1 self) (Lcoh self))) (T1 self))
            (map_mat3 (map2 (*) (phases (EW2 self) (Lcoh self))) (T2 self)))
         (map_mat3 (map2 (*) (phases (EW3 self) (Lcoh self))) (T3 self)) \<rparr>"

text \<open>\<^verbatim>\<open>self.Un.shape[2]\<close>.\<close>

definition shape2 :: "'a list mat3 \<Rightarrow> nat" where
  "shape2 A = length (m00 A)"

text \<open>
  The loop of \<^verbatim>\<open>SetDomainN\<close> over the domain indices; the local \<open>U\<close> is unbound
  (\<open>None\<close>) until the index \<open>0\<close> has been visited.
\<close>

fun chain_loop :: "complex list mat3 \<Rightarrow> nat list \<Rightarrow> complex mat3 option \<Rightarrow> complex mat3 option" where
  "chain_loop A [] U = U"
| "chain_loop A (i # is) U =
     chain_loop A is
       (if i = 0 then Some (slice A i)
        else (case U of None \<Rightarrow> None | Some V \<Rightarrow> Some (dot V (slice A i))))"

text \<open>\<^verbatim>\<open>SetDomainN\<close>: the matrix returned, and the object after the call.\<close>

definition SetDomainN :: "deltas \<Rightarrow> state \<Rightarrow> (complex mat3 \<times> state) outcome" where
  "SetDomainN D self0 =
     obind (setEW D self0) (\<lambda>s1.
     obind (setT2n (setT1n s1)) (\<lambda>s2.
     obind (setT3n s2) (\<lambda>s3.
       let self = setUn s3 in
       (case chain_loop (Un_attr self) [0..<shape2 (Un_attr self)] None of
          None \<Rightarrow> Raised (UnboundLocalError ''local variable U referenced before assignment'')
        | Some U \<Rightarrow> Returned (U, self)))))"

subsection \<open>The single-step estimator\<close>

text \<open>
  \<^verbatim>\<open>analytical_U\<close>: its outcome, and the object after the call, also when it raises.
  \<^verbatim>\<open>(self.Rmax / self.R_BLR) ** self.p\<close> is Python's float arithmetic: it raises on a zero
  divisor, on a zero base with a negative exponent, and on a negative base with an
  exponent that is not an integer. The logarithm of a non-positive ratio is not finite,
  and neither are then \<open>x\<close> and its cosine.
\<close>

definition analytical_U :: "deltas \<Rightarrow> state \<Rightarrow> complex mat3 outcome \<times> state" where
  "analytical_U D self =
     (let U0 = const_mat3 (0 :: complex);
          U1 = U0\<lparr> m00 := 1 \<rparr>
      in
        if R_BLR self = 0 then (Raised ZeroDivisionError, self)
        else if Rmax self / R_BLR self = 0 then
          (if p_attr self < 0 then (Raised ZeroDivisionError, self) else (ReturnedNaN, self))
        else if Rmax self / R_BLR self < 0 then
          (if p_attr self = of_int \<lfloor>p_attr self\<rfloor> then (ReturnedNaN, self)
           else (Raised (ValueError ''negative number cannot be raised to a fractional power''), self))
        else
          let x = 1 / 1000 * Delta_ag_kpc D (g_attr self) (Bf self (Rmax self) * 1000000)
                    * (Rmax self / R_BLR self) powr p_attr self * R_BLR self
                    * ln (Rmax self / R_BLR self);
              U2 = U1\<lparr> m11 := complex_of_real (cos x) \<rparr>;
              U3 = U2\<lparr> m12 := \<i> * complex_of_real (sin x) \<rparr>;
              U4 = U3\<lparr> m21 := m12 U3 \<rparr>;
              U5 = U4\<lparr> m22 := m11 U4 \<rparr>
          in (Returned U5, self))"

subsection \<open>The product of the specification\<close>

text \<open>
  The matrix product of a list of matrices in the order of the list,
  \<open>M\<^sub>0 (M\<^sub>1 (\<dots> (M\<^sub>n\<^sub>-\<^sub>1 1)))\<close>. It is the reading of the specification's product, against
  which the loop of \<^verbatim>\<open>SetDomainN\<close> is compared; the specification's order
  \<open>Un[Nd-1] \<dots> Un[1] Un[0]\<close> is the product of the reversed list.
\<close>

definition matrix_product :: "complex mat3 list \<Rightarrow> complex mat3" where
  "matrix_product Ms = foldr dot Ms identity3"

text \<open>The propagators \<^verbatim>\<open>Un[:,:,0]\<close>, \<open>\<dots>\<close>, \<^verbatim>\<open>Un[:,:,Nd-1]\<close> held by an object.\<close>

definition propagators :: "state \<Rightarrow> complex mat3 list" where
  "propagators self = map (slice (Un_attr self)) [0..<shape2 (Un_attr self)]"

text \<open>The value of a call that returned.\<close>

fun returned :: "'a outcome \<Rightarrow> 'a option" where
  "returned (Returned a) = Some a"
| "returned x = None"

subsection \<open>Concrete configurations\<close>

text \<open>
  A jet from \<open>R_BLR = 1\<close> to \<open>Rmax = 16\<close> whose field falls to a quarter from one domain
  to the next (\<open>sens = 1/4\<close>, \<open>p = 1\<close>), without plasma (\<open>n = 0\<close>): two domains.
\<close>

definition kw_ex :: kwargs where
  "kw_ex = [''R_BLR'' \<mapsto> 1, ''E'' \<mapsto> 1, ''g'' \<mapsto> 1, ''m'' \<mapsto> 1, ''n'' \<mapsto> 0,
            ''Rmax'' \<mapsto> 16, ''B'' \<mapsto> 1 / 1000000, ''s'' \<mapsto> 2, ''p'' \<mapsto> 1,
            ''sens'' \<mapsto> 1 / 4, ''Psi'' \<mapsto> 0]"

text \<open>The object that \<^verbatim>\<open>update_params\<close> makes of it.\<close>

definition st_ex :: state where
  "st_ex = blank\<lparr> R_BLR := 1, E_attr := 1, g_attr := 1, m_attr := 1, n_attr := 0,
       Rmax := 16, B_attr := 1 / 1000000, s_attr := 2, p_attr := 1, sens := 1 / 4, Psi := 0,
       Nd := 2, Lcoh := [3, 12], r_attr := [1, 16],
       Br := [1 / 1000000, 1 / 16000000], nr := [0, 0],
       T1 := np_zeros 2, T2 := np_zeros 2, T3 := np_zeros 2, Un_attr := np_zeros 2,
       Psin := [0, 0] \<rparr>"

text \<open>
  Collaborators of the physical form, with all constants set to one: the plasma term
  \<open>- n / E\<close>, the QED term \<open>B\<^sup>2 E\<close>, the coupling term \<open>g B\<close> and the mass term \<open>- m\<^sup>2 / E\<close>.
\<close>

definition deltas_ex :: deltas where
  "deltas_ex = \<lparr> Delta_pl_kpc = (\<lambda>n E. - n / E), Delta_QED_kpc = (\<lambda>B E. B * B * E),
                 Delta_ag_kpc = (\<lambda>g B. g * B), Delta_a_kpc = (\<lambda>m E. - (m * m) / E) \<rparr>"

text \<open>The same jet without field, coupling and mass: the object after
  \<^verbatim>\<open>update_params(g=0., m=0., B=0.)\<close>.\<close>

definition st_deg :: state where
  "st_deg = st_ex\<lparr> g_attr := 0, m_attr := 0, B_attr := 0, Br := [0, 0] \<rparr>"

section \<open>Auxiliary facts\<close>

subsection \<open>Shapes and frames\<close>

lemma length_np_linspace: "length (np_linspace a b num) = nat num"
  by (simp add: np_linspace_def)

lemma length_map3: "length (map3 f xs ys zs) = min (length xs) (min (length ys) (length zs))"
  by (simp add: map3_def)

lemma nth_map3:
  "i < length xs \<Longrightarrow> i < length ys \<Longrightarrow> i < length zs \<Longrightarrow>
   map3 f xs ys zs ! i = f (xs ! i) (ys ! i) (zs ! i)"
  by (simp add: map3_def)

lemma obind_Returned:
  "obind x f = Returned y \<longleftrightarrow> (\<exists>a. x = Returned a \<and> f a = Returned y)"
  by (cases x) (simp_all add: obind_def)

lemma update_params_Returned:
  assumes "update_params kw self0 = Returned self"
  shows "0 \<le> Nd self"
    and "length (Lcoh self) = nat (Nd self)"
    and "length (r_attr self) = nat (Nd self)"
    and "length (Br self) = nat (Nd self)"
    and "length (nr self) = nat (Nd self)"
    and "T1 self = np_zeros (Nd self)"
    and "T2 self = np_zeros (Nd self)"
    and "T3 self = np_zeros (Nd self)"
    and "Psin self = replicate (nat (Nd self)) (Psi self)"
  using assms
  by (auto simp: update_params_def Let_def obind_Returned length_np_linspace split: if_splits)

lemma setT1n_slice:
  assumes "T1 s = np_zeros N" "Psin s = replicate (nat N) psi" "i < nat N"
  shows "slice (T1 (setT1n s)) i =
     \<lparr> m00 = complex_of_real (cos psi * cos psi), m01 = 0, m02 = 0,
       m10 = 0, m11 = complex_of_real (sin psi * sin psi), m12 = 0,
       m20 = 0, m21 = 0, m22 = 0 \<rparr>"
  using assms
  by (simp add: setT1n_def Let_def slice_def map_mat3_def np_zeros_def const_mat3_def)

lemma setT2n_slice:
  assumes "T2 s = np_zeros N" "Psin s = replicate (nat N) psi" "i < nat N"
    and "alph s = map Fin al" "length al = nat N"
  shows "\<exists>s'. setT2n s = Returned s' \<and> slice (T2 s') i =
     \<lparr> m00 = 0, m01 = 0, m02 = 0,
       m10 = 0, m11 = complex_of_real (cos psi * cos psi * sin (al ! i) * sin (al ! i)),
       m12 = complex_of_real (- 1 * cos psi * cos (al ! i) * sin (al ! i)),
       m20 = 0, m21 = complex_of_real (- 1 * cos psi * cos (al ! i) * sin (al ! i)),
       m22 = complex_of_real (cos (al ! i) * cos (al ! i)) \<rparr>"
  using assms
  by (simp add: setT2n_def Let_def slice_def map_mat3_def np_zeros_def const_mat3_def
      list_all_iff nth_map3 length_map3 o_def)


lemma setT3n_slice:
  assumes "T3 s = np_zeros N" "Psin s = replicate (nat N) psi" "i < nat N"
    and "alph s = map Fin al" "length al = nat N"
  shows "\<exists>s'. setT3n s = Returned s' \<and> slice (T3 s') i =
     \<lparr> m00 = 0, m01 = 0, m02 = 0,
       m10 = 0, m11 = complex_of_real (cos psi * cos psi * cos (al ! i) * cos (al ! i)),
       m12 = complex_of_real (cos psi * sin (al ! i) * cos (al ! i)),
       m20 = 0, m21 = complex_of_real (cos psi * sin (al ! i) * cos (al ! i)),
       m22 = complex_of_real (sin (al ! i) * sin (al ! i)) \<rparr>"
  using assms
  by (simp add: setT3n_def Let_def slice_def map_mat3_def np_zeros_def const_mat3_def
      list_all_iff nth_map3 length_map3 o_def)

lemma setT1n_frame:
  "T2 (setT1n s) = T2 s" "T3 (setT1n s) = T3 s" "Psin (setT1n s) = Psin s"
  "alph (setT1n s) = alph s" "Lcoh (setT1n s) = Lcoh s" "Nd (setT1n s) = Nd s"
  "EW1 (setT1n s) = EW1 s" "EW2 (setT1n s) = EW2 s" "EW3 (setT1n s) = EW3 s"
  by (simp_all add: setT1n_def Let_def)

lemma setT2n_frame:
  assumes "setT2n s = Returned s'"
  shows "T1 s' = T1 s" "T3 s' = T3 s" "Psin s' = Psin s"
  "alph s' = alph s" "Lcoh s' = Lcoh s" "Nd s' = Nd s"
  "EW1 s' = EW1 s" "EW2 s' = EW2 s" "EW3 s' = EW3 s" "list_all is_Fin (alph s)"
  using assms by (auto simp: setT2n_def Let_def split: if_splits)

lemma setT3n_frame:
  assumes "setT3n s = Returned s'"
  shows "T1 s' = T1 s" "T2 s' = T2 s" "Psin s' = Psin s"
  "alph s' = alph s" "Lcoh s' = Lcoh s" "Nd s' = Nd s"
  "EW1 s' = EW1 s" "EW2 s' = EW2 s" "EW3 s' = EW3 s"
  using assms by (auto simp: setT3n_def Let_def split: if_splits)

lemma setUn_frame:
  "T1 (setUn s) = T1 s" "T2 (setUn s) = T2 s" "T3 (setUn s) = T3 s" "Psin (setUn s) = Psin s"
  "alph (setUn s) = alph s" "Lcoh (setUn s) = Lcoh s" "Nd (setUn s) = Nd s"
  "EW1 (setUn s) = EW1 s" "EW2 (setUn s) = EW2 s" "EW3 (setUn s) = EW3 s"
  by (simp_all add: setUn_def)

lemma setDeltas_Returned:
  assumes "setDeltas D s = Returned s'"
  shows "T1 s' = T1 s" "T2 s' = T2 s" "T3 s' = T3 s" "Psin s' = Psin s"
    "Lcoh s' = Lcoh s" "Nd s' = Nd s" "0 \<le> Nd s"
    "length (alph s') = min (length (Br s)) (min (min (length (nr s)) (length (Br s))) (nat (Nd s)))"
  using assms by (auto simp: setDeltas_def Let_def length_map3 split: if_splits)

subsection \<open>The configuration \<open>kw_ex\<close>\<close>

lemma ln16: "ln (16::real) = 2 * ln 4"
proof -
  have "ln ((4::real) ^ 2) = 2 * ln 4" by (subst ln_realpow) simp_all
  then show ?thesis by simp
qed

lemma ln4_pos: "0 < ln (4::real)" by simp

lemma dict_ex: "dict_update kw_ex blank = blank\<lparr> R_BLR := 1, E_attr := 1, g_attr := 1, m_attr := 1, n_attr := 0,
   Rmax := 16, B_attr := 1 / 1000000, s_attr := 2, p_attr := 1, sens := 1 / 4, Psi := 0 \<rparr>"
  by (simp add: dict_update_def kw_ex_def kw_get_def)

lemma count_ex: "domain_count (dict_update kw_ex blank) = Fin 2"
  by (simp add: dict_ex domain_count_def np_log_def xscale_def xdivide_def np_divide_def math_ceil_def ln_div ln16)

lemma lin1: "np_linspace 1 2 2 = [1, 2]"
  by (simp add: np_linspace_def upt_rec[of 0] upt_rec[of 1] upt_rec[of 2] eval_nat_numeral)

lemma lin0: "np_linspace 0 2 2 = [0, 2]"
  by (simp add: np_linspace_def  upt_rec[of 0] upt_rec[of 1] upt_rec[of 2] eval_nat_numeral)

lemma pw1: "(1/4::real) powr (- 1) = 4" by (simp add: powr_minus)

lemma pw2: "(1/4::real) powr (- 2) = 16" by (simp add: powr_minus power2_eq_square)

lemma pwh: "(1/4::real) powr (- (1/2)) = 2" by (simp add: powr_minus powr_half_sqrt real_sqrt_divide)

lemma upd_ex: "update_params kw_ex blank = Returned st_ex"
  apply (simp add: update_params_def Let_def count_ex py_int_def obind_def lin1 lin0)
  apply (simp add: dict_ex)
  apply (simp add: st_ex_def pw1 pw2 Bf_def nf_def powr_minus power2_eq_square eval_nat_numeral)
  done

lemma Nd_st_ex: "Nd st_ex = 2" by (simp add: st_ex_def)

subsection \<open>The propagation, step by step\<close>

lemma setEW_Returned:
  assumes "update_params kw self0 = Returned self" "setEW D self = Returned s1"
  shows "T1 s1 = T1 self" "T2 s1 = T2 self" "T3 s1 = T3 self" "Psin s1 = Psin self"
    "Lcoh s1 = Lcoh self" "Nd s1 = Nd self" "length (alph s1) = nat (Nd self)"
    "length (EW1 s1) = nat (Nd self)" "length (EW2 s1) = nat (Nd self)"
    "length (EW3 s1) = nat (Nd self)"
  using assms(2) update_params_Returned(1,4,5)[OF assms(1)]
  by (auto simp: setEW_def setDeltas_def obind_Returned Let_def length_map3 split: if_splits)

lemma list_all_is_Fin: "list_all is_Fin xs \<Longrightarrow> xs = map Fin (map the_Fin xs)"
proof (induction xs)
  case Nil
  then show ?case by simp
next
  case (Cons x xs)
  then show ?case by (cases x) simp_all
qed

lemma SetDomainN_Returned:
  assumes upd: "update_params kw self0 = Returned self"
    and run: "SetDomainN D self = Returned (U, self')"
  obtains s1 s2 s3 where "setEW D self = Returned s1" "setT2n (setT1n s1) = Returned s2"
    "setT3n s2 = Returned s3" "self' = setUn s3"
    "chain_loop (Un_attr self') [0..<shape2 (Un_attr self')] None = Some U"
  using run
  by (auto simp: SetDomainN_def obind_Returned Let_def split: option.splits)

lemma SetDomainN_projectors:
  assumes upd: "update_params kw self0 = Returned self"
    and run: "SetDomainN D self = Returned (U, self')"
    and i: "i < nat (Nd self)"
  shows "list_all is_Fin (alph self')" "length (alph self') = nat (Nd self)"
    "slice (T1 self') i =
       \<lparr> m00 = complex_of_real (cos (Psi self) * cos (Psi self)), m01 = 0, m02 = 0,
         m10 = 0, m11 = complex_of_real (sin (Psi self) * sin (Psi self)), m12 = 0,
         m20 = 0, m21 = 0, m22 = 0 \<rparr>"
    "slice (T2 self') i =
       \<lparr> m00 = 0, m01 = 0, m02 = 0,
         m10 = 0,
         m11 = complex_of_real (cos (Psi self) * cos (Psi self)
                 * sin (the_Fin (alph self' ! i)) * sin (the_Fin (alph self' ! i))),
         m12 = complex_of_real (- 1 * cos (Psi self)
                 * cos (the_Fin (alph self' ! i)) * sin (the_Fin (alph self' ! i))),
         m20 = 0,
         m21 = complex_of_real (- 1 * cos (Psi self)
                 * cos (the_Fin (alph self' ! i)) * sin (the_Fin (alph self' ! i))),
         m22 = complex_of_real (cos (the_Fin (alph self' ! i)) * cos (the_Fin (alph self' ! i))) \<rparr>"
    "slice (T3 self') i =
       \<lparr> m00 = 0, m01 = 0, m02 = 0,
         m10 = 0,
         m11 = complex_of_real (cos (Psi self) * cos (Psi self)
                 * cos (the_Fin (alph self' ! i)) * cos (the_Fin (alph self' ! i))),
         m12 = complex_of_real (cos (Psi self)
                 * sin (the_Fin (alph self' ! i)) * cos (the_Fin (alph self' ! i))),
         m20 = 0,
         m21 = complex_of_real (cos (Psi self)
                 * sin (the_Fin (alph self' ! i)) * cos (the_Fin (alph self' ! i))),
         m22 = complex_of_real (sin (the_Fin (alph self' ! i)) * sin (the_Fin (alph self' ! i))) \<rparr>"
proof -
  from upd run obtain s1 s2 s3 where st: "setEW D self = Returned s1"
    "setT2n (setT1n s1) = Returned s2" "setT3n s2 = Returned s3" "self' = setUn s3"
    by (rule SetDomainN_Returned)
  note sh = update_params_Returned[OF upd]
  note e = setEW_Returned[OF upd st(1)]
  note f2 = setT2n_frame[OF st(2)]
  note f3 = setT3n_frame[OF st(3)]
  define al where "al = map the_Fin (alph s1)"
  have fin: "list_all is_Fin (alph s1)" using f2(10) by (simp add: setT1n_frame)
  have al: "alph s1 = map Fin al" "length al = nat (Nd self)"
    using list_all_is_Fin[OF fin] e(7) by (simp_all add: al_def)
  have alph': "alph self' = alph s1"
    by (simp add: st(4) setUn_frame f3 f2 setT1n_frame)
  have nth: "the_Fin (alph self' ! i) = al ! i"
    using i al by (simp add: alph')
  show "list_all is_Fin (alph self')" using fin by (simp add: alph')
  show "length (alph self') = nat (Nd self)" using e(7) by (simp add: alph')
  have T1': "T1 self' = T1 (setT1n s1)"
    by (simp add: st(4) setUn_frame f3 f2)
  have "slice (T1 (setT1n s1)) i = \<lparr> m00 = complex_of_real (cos (Psi self) * cos (Psi self)), m01 = 0, m02 = 0,
         m10 = 0, m11 = complex_of_real (sin (Psi self) * sin (Psi self)), m12 = 0,
         m20 = 0, m21 = 0, m22 = 0 \<rparr>"
    by (rule setT1n_slice[where N = "Nd self"]) (simp_all add: e sh i)
  then show "slice (T1 self') i =
       \<lparr> m00 = complex_of_real (cos (Psi self) * cos (Psi self)), m01 = 0, m02 = 0,
         m10 = 0, m11 = complex_of_real (sin (Psi self) * sin (Psi self)), m12 = 0,
         m20 = 0, m21 = 0, m22 = 0 \<rparr>" by (simp add: T1')
  have T2': "T2 self' = T2 s2"
    by (simp add: st(4) setUn_frame f3)
  have "\<exists>s'. setT2n (setT1n s1) = Returned s' \<and> slice (T2 s') i =
     \<lparr> m00 = 0, m01 = 0, m02 = 0,
       m10 = 0, m11 = complex_of_real (cos (Psi self) * cos (Psi self) * sin (al ! i) * sin (al ! i)),
       m12 = complex_of_real (- 1 * cos (Psi self) * cos (al ! i) * sin (al ! i)),
       m20 = 0, m21 = complex_of_real (- 1 * cos (Psi self) * cos (al ! i) * sin (al ! i)),
       m22 = complex_of_real (cos (al ! i) * cos (al ! i)) \<rparr>"
    by (rule setT2n_slice[where N = "Nd self"]) (simp_all add: setT1n_frame e sh i al)
  then show "slice (T2 self') i =
       \<lparr> m00 = 0, m01 = 0, m02 = 0,
         m10 = 0,
         m11 = complex_of_real (cos (Psi self) * cos (Psi self)
                 * sin (the_Fin (alph self' ! i)) * sin (the_Fin (alph self' ! i))),
         m12 = complex_of_real (- 1 * cos (Psi self)
                 * cos (the_Fin (alph self' ! i)) * sin (the_Fin (alph self' ! i))),
         m20 = 0,
         m21 = complex_of_real (- 1 * cos (Psi self)
                 * cos (the_Fin (alph self' ! i)) * sin (the_Fin (alph self' ! i))),
         m22 = complex_of_real (cos (the_Fin (alph self' ! i)) * cos (the_Fin (alph self' ! i))) \<rparr>"
    using st(2) by (simp add: T2' nth)
  have T3': "T3 self' = T3 s3"
    by (simp add: st(4) setUn_frame)
  have "\<exists>s'. setT3n s2 = Returned s' \<and> slice (T3 s') i =
     \<lparr> m00 = 0, m01 = 0, m02 = 0,
       m10 = 0, m11 = complex_of_real (cos (Psi self) * cos (Psi self) * cos (al ! i) * cos (al ! i)),
       m12 = complex_of_real (cos (Psi self) * sin (al ! i) * cos (al ! i)),
       m20 = 0, m21 = complex_of_real (cos (Psi self) * sin (al ! i) * cos (al ! i)),
       m22 = complex_of_real (sin (al ! i) * sin (al ! i)) \<rparr>"
    by (rule setT3n_slice[where N = "Nd self"]) (simp_all add: f2 setT1n_frame e sh i al)
  then show "slice (T3 self') i =
       \<lparr> m00 = 0, m01 = 0, m02 = 0,
         m10 = 0,
         m11 = complex_of_real (cos (Psi self) * cos (Psi self)
                 * cos (the_Fin (alph self' ! i)) * cos (the_Fin (alph self' ! i))),
         m12 = complex_of_real (cos (Psi self)
                 * sin (the_Fin (alph self' ! i)) * cos (the_Fin (alph self' ! i))),
         m20 = 0,
         m21 = complex_of_real (cos (Psi self)
                 * sin (the_Fin (alph self' ! i)) * cos (the_Fin (alph self' ! i))),
         m22 = complex_of_real (sin (the_Fin (alph self' ! i)) * sin (the_Fin (alph self' ! i))) \<rparr>"
    using st(3) by (simp add: T3' nth)
qed

lemma chain_loop_Some:
  "0 \<notin> set js \<Longrightarrow> chain_loop A js (Some V) = Some (foldl dot V (map (slice A) js))"
  by (induction js arbitrary: V) auto

lemma chain_loop_upt:
  "chain_loop A [0..<n] None =
     (if n = 0 then None else Some (foldl dot (slice A 0) (map (slice A) [1..<n])))"
proof (cases n)
  case 0
  then show ?thesis by simp
next
  case (Suc k)
  have "[0..<Suc k] = 0 # [1..<Suc k]" by (simp add: upt_rec)
  then show ?thesis using Suc by (simp add: chain_loop_Some)
qed

lemma shape2_setUn:
  assumes "length (EW1 s) = n" "length (Lcoh s) = n" "length (m00 (T1 s)) = n"
    "length (EW2 s) = n" "length (m00 (T2 s)) = n" "length (EW3 s) = n" "length (m00 (T3 s)) = n"
  shows "shape2 (Un_attr (setUn s)) = n"
  using assms by (simp add: shape2_def setUn_def zip_mat3_def map_mat3_def phases_def)

lemma setT1n_m00_length: "length (m00 (T1 (setT1n s))) = length (Psin s)"
  by (simp add: setT1n_def Let_def)

lemma setT2n_m00: "setT2n s = Returned s' \<Longrightarrow> m00 (T2 s') = m00 (T2 s)"
  by (auto simp: setT2n_def Let_def split: if_splits)

lemma setT3n_m00: "setT3n s = Returned s' \<Longrightarrow> m00 (T3 s') = m00 (T3 s)"
  by (auto simp: setT3n_def Let_def split: if_splits)

lemma setT2n_returns: "list_all is_Fin (alph s) \<Longrightarrow> \<exists>s'. setT2n s = Returned s'"
  by (simp add: setT2n_def Let_def)

lemma setT3n_returns: "list_all is_Fin (alph s) \<Longrightarrow> \<exists>s'. setT3n s = Returned s'"
  by (simp add: setT3n_def Let_def)

lemma setEW_returns:
  assumes "update_params kw self0 = Returned self"
  shows "\<exists>s1. setEW D self = Returned s1"
  using update_params_Returned(1)[OF assms]
  by (simp add: setEW_def setDeltas_def obind_def Let_def)

lemma SetDomainN_shape:
  assumes upd: "update_params kw self0 = Returned self"
    and st: "setEW D self = Returned s1" "setT2n (setT1n s1) = Returned s2"
      "setT3n s2 = Returned s3"
  shows "shape2 (Un_attr (setUn s3)) = nat (Nd self)"
proof -
  note sh = update_params_Returned[OF upd]
  note e = setEW_Returned[OF upd st(1)]
  note f2 = setT2n_frame[OF st(2)]
  note f3 = setT3n_frame[OF st(3)]
  have a: "length (m00 (T1 s3)) = nat (Nd self)"
    by (simp add: f3 f2 setT1n_m00_length e sh)
  have b: "length (m00 (T2 s3)) = nat (Nd self)"
    by (simp add: f3 setT2n_m00[OF st(2)] setT1n_frame e sh np_zeros_def const_mat3_def)
  have c: "length (m00 (T3 s3)) = nat (Nd self)"
    by (simp add: setT3n_m00[OF st(3)] f2 setT1n_frame e sh np_zeros_def const_mat3_def)
  have d: "length (EW1 s3) = nat (Nd self)" "length (EW2 s3) = nat (Nd self)"
    "length (EW3 s3) = nat (Nd self)" "length (Lcoh s3) = nat (Nd self)"
    by (simp_all add: f3 f2 setT1n_frame e sh)
  show ?thesis
    by (rule shape2_setUn) (rule a b c d)+
qed

lemma SetDomainN_returns:
  assumes upd: "update_params kw self0 = Returned self"
    and pos: "0 < Nd self"
    and st: "setEW D self = Returned s1" and fin: "list_all is_Fin (alph s1)"
  shows "\<exists>U self'. SetDomainN D self = Returned (U, self')"
proof -
  from fin obtain s2 where s2: "setT2n (setT1n s1) = Returned s2"
    using setT2n_returns[of "setT1n s1"] by (auto simp: setT1n_frame)
  have "list_all is_Fin (alph s2)" using fin setT2n_frame(4)[OF s2] by (simp add: setT1n_frame)
  then obtain s3 where s3: "setT3n s2 = Returned s3"
    using setT3n_returns by blast
  have n: "shape2 (Un_attr (setUn s3)) = nat (Nd self)"
    by (rule SetDomainN_shape[OF upd st s2 s3])
  show ?thesis
    using pos by (simp add: SetDomainN_def st s2 s3 obind_def Let_def n chain_loop_upt)
qed

lemma SetDomainN_zero:
  assumes upd: "update_params kw self0 = Returned self" and z: "Nd self = 0"
  shows "SetDomainN D self =
           Raised (UnboundLocalError ''local variable U referenced before assignment'')"
proof -
  obtain s1 where s1: "setEW D self = Returned s1" using setEW_returns[OF upd] by blast
  have "length (alph s1) = 0" using setEW_Returned(7)[OF upd s1] z by simp
  then have fin: "list_all is_Fin (alph s1)" by simp
  from fin obtain s2 where s2: "setT2n (setT1n s1) = Returned s2"
    using setT2n_returns[of "setT1n s1"] by (auto simp: setT1n_frame)
  have "list_all is_Fin (alph s2)" using fin setT2n_frame(4)[OF s2] by (simp add: setT1n_frame)
  then obtain s3 where s3: "setT3n s2 = Returned s3"
    using setT3n_returns by blast
  have n: "shape2 (Un_attr (setUn s3)) = nat (Nd self)"
    by (rule SetDomainN_shape[OF upd s1 s2 s3])
  show ?thesis
    using z by (simp add: SetDomainN_def s1 s2 s3 obind_def Let_def n)
qed

lemma setEW_ex:
  assumes "setEW deltas_ex st_ex = Returned s1"
  shows "alph s1 = [Fin (1 / 2 * arctan (4 / 9)), Fin (1 / 2 * arctan (64 / 519))]"
    and "Dpar s1 = [7 / 2000, 7 / 512000]" and "Da s1 = [- (1 / 1000), - (1 / 1000)]"
    and "Dag s1 = [1 / 1000, 1 / 16000]"
  using assms
  by (auto simp: setEW_def setDeltas_def obind_Returned Let_def st_ex_def deltas_ex_def
      map3_def mixing_angle_def np_divide_def np_arctan_def xscale_def eval_nat_numeral)

lemma run_ex: "\<exists>U self'. SetDomainN deltas_ex st_ex = Returned (U, self')"
proof -
  obtain s1 where s1: "setEW deltas_ex st_ex = Returned s1"
    using setEW_returns[OF upd_ex] by blast
  show ?thesis
    by (rule SetDomainN_returns[OF upd_ex _ s1]) (simp_all add: Nd_st_ex setEW_ex(1)[OF s1])
qed

lemma slice_m00: "m00 (slice A i) = m00 A ! i"
  by (simp add: slice_def map_mat3_def)

lemma T1_m00_after:
  assumes "update_params kw self0 = Returned self"
    and "SetDomainN D self = Returned (U, self')"
  shows "m00 (T1 self') =
           replicate (nat (Nd self)) (complex_of_real (cos (Psi self) * cos (Psi self)))"
proof -
  from assms obtain s1 s2 s3 where st: "setEW D self = Returned s1"
    "setT2n (setT1n s1) = Returned s2" "setT3n s2 = Returned s3" "self' = setUn s3"
    by (rule SetDomainN_Returned)
  have "T1 self' = T1 (setT1n s1)"
    by (simp add: st(4) setUn_frame setT3n_frame[OF st(3)] setT2n_frame[OF st(2)])
  moreover have "Psin s1 = replicate (nat (Nd self)) (Psi self)"
    by (simp add: setEW_Returned[OF assms(1) st(1)] update_params_Returned[OF assms(1)])
  ultimately show ?thesis
    by (simp add: setT1n_def Let_def zip_replicate)
qed

subsection \<open>The domain count\<close>

lemma py_int_of_int: "py_int (Fin (of_int k)) = Returned k"
  by (simp add: py_int_def)

lemma domain_count_real:
  assumes "0 < sens c" "sens c \<noteq> 1" "0 < Rmax c / R_BLR c"
  shows "domain_count c =
           Fin (of_int \<lceil>- 1 * p_attr c * ln (Rmax c / R_BLR c) / ln (sens c)\<rceil>)"
  using assms
  by (simp add: domain_count_def np_log_def xscale_def xdivide_def np_divide_def math_ceil_def)

lemma update_params_Fin:
  assumes "R_BLR (dict_update kw s0) \<noteq> 0"
    and "domain_count (dict_update kw s0) = Fin (of_int k)"
  shows "k < 0 \<Longrightarrow>
           update_params kw s0 = Raised (ValueError ''negative dimensions are not allowed'')"
    and "0 \<le> k \<Longrightarrow> \<exists>self. update_params kw s0 = Returned self \<and> Nd self = k
            \<and> sens self = sens (dict_update kw s0) \<and> p_attr self = p_attr (dict_update kw s0)
            \<and> R_BLR self = R_BLR (dict_update kw s0) \<and> Rmax self = Rmax (dict_update kw s0)
            \<and> Psi self = Psi (dict_update kw s0)
            \<and> Lcoh self = map (\<lambda>x. R_BLR self * sens self powr (- x / p_attr self) * (1 - sens self))
                              (np_linspace 1 (of_int k) k)
            \<and> r_attr self = map (\<lambda>x. R_BLR self * sens self powr (- x / p_attr self))
                              (np_linspace 0 (of_int k) k)"
  using assms
  by (simp_all add: update_params_def Let_def obind_def py_int_of_int)

lemma update_params_config:
  assumes "update_params kw s0 = Returned self"
  shows "sens self = sens (dict_update kw s0)" "p_attr self = p_attr (dict_update kw s0)"
    "R_BLR self = R_BLR (dict_update kw s0)" "Rmax self = Rmax (dict_update kw s0)"
    "Psi self = Psi (dict_update kw s0)" "R_BLR self \<noteq> 0"
    "domain_count (dict_update kw s0) = Fin (of_int (Nd self))"
    "Lcoh self = map (\<lambda>x. R_BLR self * sens self powr (- x / p_attr self) * (1 - sens self))
                              (np_linspace 1 (of_int (Nd self)) (Nd self))"
    "r_attr self = map (\<lambda>x. R_BLR self * sens self powr (- x / p_attr self))
                              (np_linspace 0 (of_int (Nd self)) (Nd self))"
  using assms
  apply (auto simp: update_params_def Let_def obind_Returned py_int_def domain_count_def math_ceil_def
      split: if_splits xreal.splits)
  done

lemma domain_count_pos:
  assumes "domain_count c = Fin v" "0 < v"
  shows "0 < sens c" "sens c \<noteq> 1" "0 < Rmax c / R_BLR c" "p_attr c \<noteq> 0"
  using assms
  by (auto simp: domain_count_def np_log_def xscale_def xdivide_def np_divide_def math_ceil_def
      split: if_splits xreal.splits)

lemma valid_count:
  assumes "0 < sens c" "sens c < 1" "0 < p_attr c" "0 < R_BLR c" "R_BLR c < Rmax c"
  shows "1 \<le> \<lceil>- 1 * p_attr c * ln (Rmax c / R_BLR c) / ln (sens c)\<rceil>"
proof -
  have r: "1 < Rmax c / R_BLR c" using assms by simp
  then have "0 < ln (Rmax c / R_BLR c)" by simp
  moreover have "ln (sens c) < 0" using assms by simp
  ultimately have "0 < - 1 * p_attr c * ln (Rmax c / R_BLR c) / ln (sens c)"
    using assms(3) by (simp add: divide_neg_neg zero_less_mult_iff field_simps)
  then show ?thesis by linarith
qed

lemma ln4: "ln (4::real) = 2 * ln 2"
proof -
  have "ln ((2::real) ^ 2) = 2 * ln 2" by (subst ln_realpow) simp_all
  then show ?thesis by simp
qed

lemma sel_ex:
  "R_BLR st_ex = 1" "Rmax st_ex = 16" "sens st_ex = 1 / 4" "p_attr st_ex = 1" "Psi st_ex = 0"
  "r_attr st_ex = [1, 16]" "Lcoh st_ex = [3, 12]"
  by (simp_all add: st_ex_def)

lemma dict_sel:
  "R_BLR (dict_update kw s) = kw_get kw ''R_BLR'' (R_BLR s)"
  "Rmax (dict_update kw s) = kw_get kw ''Rmax'' (Rmax s)"
  "sens (dict_update kw s) = kw_get kw ''sens'' (sens s)"
  "p_attr (dict_update kw s) = kw_get kw ''p'' (p_attr s)"
  "Psi (dict_update kw s) = kw_get kw ''Psi'' (Psi s)"
  by (simp_all add: dict_update_def)

lemma count_ratio2: "domain_count (dict_update [''Rmax'' \<mapsto> 2] st_ex) = Fin (of_int 1)"
proof -
  have "\<lceil>1 / 2 :: real\<rceil> = 1" by (rule ceiling_unique) simp_all
  then show ?thesis
    by (subst domain_count_real) (simp_all add: dict_sel kw_get_def sel_ex ln_div ln4)
qed

lemma count_ratio4: "domain_count (dict_update [''Rmax'' \<mapsto> 4] st_ex) = Fin (of_int 1)"
  by (subst domain_count_real) (simp_all add: dict_sel kw_get_def sel_ex ln_div)

lemma count_ratio1: "domain_count (dict_update [''Rmax'' \<mapsto> 1] st_ex) = Fin (of_int 0)"
  by (subst domain_count_real) (simp_all add: dict_sel kw_get_def sel_ex)

lemma count_inverted:
  "domain_count (dict_update [''sens'' \<mapsto> 4, ''R_BLR'' \<mapsto> 16, ''Rmax'' \<mapsto> 1] st_ex)
     = Fin (of_int 2)"
  by (subst domain_count_real) (simp_all add: dict_sel kw_get_def sel_ex ln_div ln16)

lemma Nd_of_count:
  assumes "R_BLR (dict_update kw s0) \<noteq> 0"
    and "domain_count (dict_update kw s0) = Fin (of_int k)" and "0 \<le> k"
  shows "map_option Nd (returned (update_params kw s0)) = Some k"
  using update_params_Fin(2)[OF assms] by auto

subsection \<open>The geometric series of the coherence lengths\<close>

lemma np_linspace_from_one:
  assumes "1 \<le> k"
  shows "np_linspace 1 (of_int k) k = map (\<lambda>j. real j + 1) [0..<nat k]"
proof (cases "k = 1")
  case True
  then show ?thesis by (simp add: np_linspace_def)
next
  case False
  with assms have "(of_int k - 1 :: real) \<noteq> 0" by simp
  then show ?thesis using assms False by (simp add: np_linspace_def)
qed

lemma powr_below_one:
  assumes "0 < (s::real)" "s < 1" "0 < a"
  shows "s powr a < 1"
proof -
  have "a * ln s < 0" using assms ln_less_zero[OF assms(1,2)] by (simp add: mult_pos_neg)
  then have "exp (a * ln s) < 1" by simp
  then show ?thesis using assms(1) by (simp add: powr_def)
qed

lemma geometric_lengths:
  assumes "0 < (s::real)"
  shows "sum_list (map (\<lambda>j. R * s powr (- (real j + 1) / p) * (1 - s)) [0..<n])
            * (1 - s powr (1 / p))
           = (1 - s) * (R * s powr (- real n / p) - R)"
proof (induction n)
  case 0
  then show ?case using assms by simp
next
  case (Suc n)
  have "s powr (- (real n + 1) / p) * s powr (1 / p) = s powr (- (real n + 1) / p + 1 / p)"
    by (simp only: powr_add)
  also have "- (real n + 1) / p + 1 / p = - real n / p"
    by (simp add: add_divide_distrib[symmetric] del: add_divide_distrib)
  finally have step: "s powr (- (real n + 1) / p) * s powr (1 / p) = s powr (- real n / p)" .
  have "sum_list (map (\<lambda>j. R * s powr (- (real j + 1) / p) * (1 - s)) [0..<Suc n])
            * (1 - s powr (1 / p))
        = sum_list (map (\<lambda>j. R * s powr (- (real j + 1) / p) * (1 - s)) [0..<n])
            * (1 - s powr (1 / p))
          + R * s powr (- (real n + 1) / p) * (1 - s) * (1 - s powr (1 / p))"
    by (simp add: algebra_simps)
  also have "\<dots> = (1 - s) * (R * s powr (- real n / p) - R)
          + R * s powr (- (real n + 1) / p) * (1 - s) * (1 - s powr (1 / p))"
    by (simp only: Suc.IH)
  also have "\<dots> = (1 - s) * (R * s powr (- real n / p) - R)
          + (1 - s) * (R * s powr (- (real n + 1) / p)
                        - R * (s powr (- (real n + 1) / p) * s powr (1 / p)))"
    by (simp add: algebra_simps)
  also have "\<dots> = (1 - s) * (R * s powr (- (real n + 1) / p) - R)"
    by (simp only: step) (simp add: algebra_simps)
  finally show ?case by (simp add: add.commute)
qed

lemma count_bounds:
  assumes s: "0 < (s::real)" "s < 1" and r: "0 < (ratio::real)" and p: "0 < p"
    and k: "k = \<lceil>- 1 * p * ln ratio / ln s\<rceil>"
  shows "ratio \<le> s powr (- of_int k / p)"
    and "s powr (- of_int k / p) < ratio * s powr (- 1 / p)"
proof -
  define L where "L = - ln s"
  have L: "0 < L" using ln_less_zero[OF s] by (simp add: L_def)
  define v where "v = p * ln ratio / L"
  have kv: "k = \<lceil>v\<rceil>" by (simp add: k v_def L_def)
  have v: "ln ratio = v * (L / p)" using L p by (simp add: v_def)
  have Lp: "0 < L / p" using L p by simp
  have pw: "s powr (- of_int k / p) = exp (of_int k * (L / p))"
    using s by (simp add: powr_def L_def)
  have pw1: "s powr (- 1 / p) = exp (L / p)"
    using s by (simp add: powr_def L_def)
  have er: "exp (ln ratio) = ratio" using r by simp
  have "v \<le> of_int k" unfolding kv by (rule le_of_int_ceiling)
  then have "v * (L / p) \<le> of_int k * (L / p)" using Lp by (simp only: mult_le_cancel_right_pos)
  then have "ln ratio \<le> of_int k * (L / p)" by (simp only: v)
  then have "exp (ln ratio) \<le> exp (of_int k * (L / p))" by (simp only: exp_le_cancel_iff)
  then show "ratio \<le> s powr (- of_int k / p)" by (simp only: pw er)
  have "of_int k - 1 < v" unfolding kv using ceiling_correct[of v] by simp
  then have "(of_int k - 1) * (L / p) < v * (L / p)"
    using Lp by (simp only: mult_less_cancel_right_pos)
  then have "(of_int k - 1) * (L / p) < ln ratio" by (simp only: v)
  then have "exp ((of_int k - 1) * (L / p)) < exp (ln ratio)" by (simp only: exp_less_cancel_iff)
  then have "exp ((of_int k - 1) * (L / p)) < ratio" by (simp only: er)
  moreover have "(of_int k - 1) * (L / p) = of_int k * (L / p) - L / p"
    by (simp add: algebra_simps)
  ultimately have "exp (of_int k * (L / p) - L / p) < ratio" by (simp only:)
  then have "exp (of_int k * (L / p)) / exp (L / p) < ratio" by (simp only: exp_diff)
  then have "exp (of_int k * (L / p)) < ratio * exp (L / p)"
    by (simp only: pos_divide_less_eq[OF exp_gt_zero])
  then show "s powr (- of_int k / p) < ratio * s powr (- 1 / p)" by (simp only: pw pw1)
qed

lemma Lcoh_of_count:
  assumes "R_BLR (dict_update kw s0) \<noteq> 0"
    and "domain_count (dict_update kw s0) = Fin (of_int k)" and "0 \<le> k"
  shows "map_option Lcoh (returned (update_params kw s0))
           = Some (map (\<lambda>x. R_BLR (dict_update kw s0)
                               * sens (dict_update kw s0) powr (- x / p_attr (dict_update kw s0))
                               * (1 - sens (dict_update kw s0)))
                       (np_linspace 1 (of_int k) k))"
  using update_params_Fin(2)[OF assms] by auto

lemma count_poloidal:
  "domain_count (dict_update [''Rmax'' \<mapsto> 4, ''p'' \<mapsto> 2] st_ex) = Fin (of_int 2)"
  by (subst domain_count_real) (simp_all add: dict_sel kw_get_def sel_ex ln_div)

lemma ln5_between: "ln (4::real) < ln 5" "ln (5::real) \<le> 2 * ln 4"
proof -
  show "ln (4::real) < ln 5" by simp
  have "ln (5::real) \<le> ln 16" by simp
  then show "ln (5::real) \<le> 2 * ln 4" by (simp only: ln16)
qed

lemma count_coarse: "domain_count (dict_update [''Rmax'' \<mapsto> 5] st_ex) = Fin (of_int 2)"
proof -
  have pos: "0 < ln (4::real)" by simp
  have "\<lceil>ln (5::real) / ln 4\<rceil> = 2"
  proof (rule ceiling_unique)
    show "of_int 2 - 1 < ln (5::real) / ln 4"
      using ln5_between(1) pos by (simp add: pos_less_divide_eq)
    show "ln (5::real) / ln 4 \<le> of_int 2"
      using ln5_between(2) pos by (simp add: pos_divide_le_eq)
  qed
  then show ?thesis
    by (subst domain_count_real) (simp_all add: dict_sel kw_get_def sel_ex ln_div)
qed

subsection \<open>The configuration without field, coupling and mass\<close>

lemma upd_deg:
  "update_params [''g'' \<mapsto> 0, ''m'' \<mapsto> 0, ''B'' \<mapsto> 0] st_ex = Returned st_deg"
proof -
  have c: "domain_count (dict_update [''g'' \<mapsto> 0, ''m'' \<mapsto> 0, ''B'' \<mapsto> 0] st_ex) = Fin 2"
    by (subst domain_count_real) (simp_all add: dict_sel kw_get_def sel_ex ln_div ln16)
  show ?thesis
    apply (simp add: update_params_def Let_def c py_int_def obind_def lin1 lin0)
    apply (simp add: dict_update_def kw_get_def st_deg_def st_ex_def blank_def Bf_def nf_def
        powr_minus power2_eq_square eval_nat_numeral)
    done
qed

lemma setDeltas_deg:
  "\<exists>s1. setDeltas deltas_ex st_deg = Returned s1 \<and> Dpar s1 = [0, 0] \<and> Da s1 = [0, 0]
       \<and> Dag s1 = [0, 0] \<and> alph s1 = [NaN, NaN]"
  by (simp add: setDeltas_def Let_def st_deg_def st_ex_def blank_def deltas_ex_def map3_def
      mixing_angle_def np_divide_def np_arctan_def xscale_def eval_nat_numeral)

lemma mixing_angle_degenerate:
  "mixing_angle ag a a = (if 0 < ag then Fin (pi / 4) else if ag < 0 then Fin (- (pi / 4)) else NaN)"
  by (simp add: mixing_angle_def np_divide_def np_arctan_def xscale_def)

lemma setDeltas_alph:
  assumes "update_params kw self0 = Returned self" and "i < nat (Nd self)"
  shows "\<exists>s1. setDeltas D self = Returned s1 \<and> length (alph s1) = nat (Nd self)
           \<and> length (Dag s1) = nat (Nd self) \<and> length (Dpar s1) = nat (Nd self)
           \<and> length (Da s1) = nat (Nd self)
           \<and> alph s1 ! i = mixing_angle (Dag s1 ! i) (Dpar s1 ! i) (Da s1 ! i)"
  using assms(2) update_params_Returned(1,4,5)[OF assms(1)]
  by (simp add: setDeltas_def Let_def length_map3 nth_map3)

lemma setEW_alph:
  "setDeltas D self = Returned s1 \<Longrightarrow> \<exists>s2. setEW D self = Returned s2 \<and> alph s2 = alph s1"
  by (simp add: setEW_def obind_def)

lemma SetDomainN_NaN:
  assumes "setDeltas D self = Returned s1" and "i < length (alph s1)" and "alph s1 ! i = NaN"
  shows "SetDomainN D self = ReturnedNaN"
proof -
  obtain s2 where s2: "setEW D self = Returned s2" "alph s2 = alph s1"
    using setEW_alph[OF assms(1)] by blast
  have "\<not> is_Fin (alph s1 ! i)" by (simp add: assms(3))
  then have "\<not> list_all is_Fin (alph s1)"
    using assms(2) by (auto simp: list_all_iff)
  then have "setT2n (setT1n s2) = ReturnedNaN"
    by (simp add: setT2n_def setT1n_frame s2(2))
  then show ?thesis by (simp add: SetDomainN_def s2(1) obind_def)
qed

subsection \<open>Matrix products\<close>

lemma dot_assoc: "dot (dot A C) E = dot A (dot C E)"
  by (simp add: dot_def algebra_simps)

lemma dot_identity3: "dot A identity3 = A"
  by (simp add: dot_def identity3_def)

lemma foldl_dot: "foldl dot V Ms = dot V (foldr dot Ms identity3)"
proof (induction Ms arbitrary: V)
  case Nil
  then show ?case by (simp add: dot_identity3)
next
  case (Cons M Ms)
  then show ?case by (simp add: dot_assoc)
qed

lemma chain_loop_product:
  assumes "0 < n"
  shows "chain_loop A [0..<n] None = Some (matrix_product (map (slice A) [0..<n]))"
proof -
  have "[0..<n] = 0 # [1..<n]" using assms by (simp add: upt_rec)
  then have "matrix_product (map (slice A) [0..<n])
               = dot (slice A 0) (foldr dot (map (slice A) [1..<n]) identity3)"
    by (simp add: matrix_product_def)
  then show ?thesis using assms by (simp add: chain_loop_upt foldl_dot)
qed

lemma SetDomainN_not_Fin:
  assumes "setEW D self = Returned s1" and "\<not> list_all is_Fin (alph s1)"
  shows "SetDomainN D self = ReturnedNaN"
proof -
  have "setT2n (setT1n s1) = ReturnedNaN"
    using assms(2) by (simp add: setT2n_def setT1n_frame)
  then show ?thesis by (simp add: SetDomainN_def assms(1) obind_def)
qed

lemma SetDomainN_value:
  assumes upd: "update_params kw self0 = Returned self" and pos: "1 \<le> Nd self"
    and run: "SetDomainN D self = Returned (U, self')"
  shows "shape2 (Un_attr self') = nat (Nd self)"
    and "U = matrix_product (propagators self')"
proof -
  from upd run obtain s1 s2 s3 where st: "setEW D self = Returned s1"
    "setT2n (setT1n s1) = Returned s2" "setT3n s2 = Returned s3" "self' = setUn s3"
    and loop: "chain_loop (Un_attr self') [0..<shape2 (Un_attr self')] None = Some U"
    by (rule SetDomainN_Returned)
  show n: "shape2 (Un_attr self') = nat (Nd self)"
    unfolding st(4) by (rule SetDomainN_shape[OF upd st(1,2,3)])
  have "0 < nat (Nd self)" using pos by simp
  from chain_loop_product[OF this, of "Un_attr self'"] loop
  show "U = matrix_product (propagators self')"
    by (simp add: n propagators_def)
qed

subsection \<open>The propagators of the domains\<close>

lemma setT1n_lengths:
  assumes "T1 s = np_zeros N" "length (Psin s) = nat N"
  shows "map_mat3 length (T1 (setT1n s)) = const_mat3 (nat N)"
  using assms by (simp add: setT1n_def Let_def map_mat3_def np_zeros_def const_mat3_def)

lemma setT2n_lengths:
  assumes "T2 s = np_zeros N" "length (Psin s) = nat N" "length (alph s) = nat N"
    and "setT2n s = Returned s'"
  shows "map_mat3 length (T2 s') = const_mat3 (nat N)"
  using assms
  by (auto simp: setT2n_def Let_def map_mat3_def np_zeros_def const_mat3_def length_map3
      split: if_splits)

lemma setT3n_lengths:
  assumes "T3 s = np_zeros N" "length (Psin s) = nat N" "length (alph s) = nat N"
    and "setT3n s = Returned s'"
  shows "map_mat3 length (T3 s') = const_mat3 (nat N)"
  using assms
  by (auto simp: setT3n_def Let_def map_mat3_def np_zeros_def const_mat3_def length_map3
      split: if_splits)

lemma setUn_slice:
  assumes "map_mat3 length (T1 s) = const_mat3 n" "map_mat3 length (T2 s) = const_mat3 n"
    "map_mat3 length (T3 s) = const_mat3 n"
    "length (EW1 s) = n" "length (EW2 s) = n" "length (EW3 s) = n" "length (Lcoh s) = n"
    "i < n"
  shows "slice (Un_attr (setUn s)) i =
     zip_mat3 (+)
       (zip_mat3 (+)
         (map_mat3 ((*) (exp (\<i> * complex_of_real (EW1 s ! i) * complex_of_real (Lcoh s ! i))))
                   (slice (T1 s) i))
         (map_mat3 ((*) (exp (\<i> * complex_of_real (EW2 s ! i) * complex_of_real (Lcoh s ! i))))
                   (slice (T2 s) i)))
       (map_mat3 ((*) (exp (\<i> * complex_of_real (EW3 s ! i) * complex_of_real (Lcoh s ! i))))
                 (slice (T3 s) i))"
  using assms
  by (simp add: setUn_def slice_def zip_mat3_def map_mat3_def phases_def const_mat3_def)

lemma SetDomainN_propagator:
  assumes upd: "update_params kw self0 = Returned self"
    and run: "SetDomainN D self = Returned (U, self')"
    and i: "i < nat (Nd self)"
  shows "slice (Un_attr self') i =
     zip_mat3 (+)
       (zip_mat3 (+)
         (map_mat3 ((*) (exp (\<i> * complex_of_real (EW1 self' ! i) * complex_of_real (Lcoh self' ! i))))
                   (slice (T1 self') i))
         (map_mat3 ((*) (exp (\<i> * complex_of_real (EW2 self' ! i) * complex_of_real (Lcoh self' ! i))))
                   (slice (T2 self') i)))
       (map_mat3 ((*) (exp (\<i> * complex_of_real (EW3 self' ! i) * complex_of_real (Lcoh self' ! i))))
                 (slice (T3 self') i))"
proof -
  from upd run obtain s1 s2 s3 where st: "setEW D self = Returned s1"
    "setT2n (setT1n s1) = Returned s2" "setT3n s2 = Returned s3" "self' = setUn s3"
    by (rule SetDomainN_Returned)
  note sh = update_params_Returned[OF upd]
  note e = setEW_Returned[OF upd st(1)]
  note f2 = setT2n_frame[OF st(2)]
  note f3 = setT3n_frame[OF st(3)]
  have psin: "length (Psin s1) = nat (Nd self)" by (simp add: e sh)
  have l1: "map_mat3 length (T1 s3) = const_mat3 (nat (Nd self))"
    unfolding f3(1) f2(1) by (rule setT1n_lengths) (simp_all add: e sh)
  have l2: "map_mat3 length (T2 s3) = const_mat3 (nat (Nd self))"
    unfolding f3(2)
    by (rule setT2n_lengths[OF _ _ _ st(2)]) (simp_all add: setT1n_frame e sh)
  have l3: "map_mat3 length (T3 s3) = const_mat3 (nat (Nd self))"
    by (rule setT3n_lengths[OF _ _ _ st(3)]) (simp_all add: f2 setT1n_frame e sh)
  have d: "length (EW1 s3) = nat (Nd self)" "length (EW2 s3) = nat (Nd self)"
    "length (EW3 s3) = nat (Nd self)" "length (Lcoh s3) = nat (Nd self)"
    by (simp_all add: f3 f2 setT1n_frame e sh)
  from setUn_slice[OF l1 l2 l3 d i] show ?thesis
    by (simp add: st(4) setUn_frame)
qed

lemma setEW_entries:
  assumes "update_params kw self0 = Returned self" and "i < nat (Nd self)"
  shows "\<exists>s1. setEW D self = Returned s1
           \<and> Dosc s1 ! i = sqrt ((Dpar s1 ! i - Da s1 ! i)\<^sup>2 + 4 * (Dag s1 ! i)\<^sup>2)
           \<and> EW2 s1 ! i = 1 / 2 * (Dpar s1 ! i + Da s1 ! i - Dosc s1 ! i)
           \<and> EW3 s1 ! i = 1 / 2 * (Dpar s1 ! i + Da s1 ! i + Dosc s1 ! i)"
proof -
  note sh = update_params_Returned[OF assms(1)]
  from sh(1) have nd: "\<not> Nd self < 0" by simp
  show ?thesis
    using assms(2) sh(4,5) nd
    by (simp add: setEW_def setDeltas_def obind_def Let_def length_map3 nth_map3)
qed

lemma setEW_gap:
  assumes "update_params kw self0 = Returned self" "setEW D self = Returned s1"
    and "i < nat (Nd self)"
  shows "EW3 s1 ! i - EW2 s1 ! i = sqrt ((Dpar s1 ! i - Da s1 ! i)\<^sup>2 + 4 * (Dag s1 ! i)\<^sup>2)"
proof -
  from setEW_entries[OF assms(1,3), of D] assms(2)
  have "Dosc s1 ! i = sqrt ((Dpar s1 ! i - Da s1 ! i)\<^sup>2 + 4 * (Dag s1 ! i)\<^sup>2)"
    "EW2 s1 ! i = 1 / 2 * (Dpar s1 ! i + Da s1 ! i - Dosc s1 ! i)"
    "EW3 s1 ! i = 1 / 2 * (Dpar s1 ! i + Da s1 ! i + Dosc s1 ! i)"
    by auto
  then show ?thesis by (simp add: field_simps)
qed

lemma SetDomainN_frame:
  assumes "update_params kw self0 = Returned self"
    and "SetDomainN D self = Returned (U, self')"
  obtains s1 where "setEW D self = Returned s1" "EW1 self' = EW1 s1" "EW2 self' = EW2 s1"
    "EW3 self' = EW3 s1" "Lcoh self' = Lcoh self" "alph self' = alph s1"
proof -
  from assms obtain s1 s2 s3 where st: "setEW D self = Returned s1"
    "setT2n (setT1n s1) = Returned s2" "setT3n s2 = Returned s3" "self' = setUn s3"
    by (rule SetDomainN_Returned)
  note e = setEW_Returned[OF assms(1) st(1)]
  note f2 = setT2n_frame[OF st(2)]
  note f3 = setT3n_frame[OF st(3)]
  show ?thesis
    by (rule that[OF st(1)]) (simp_all add: st(4) setUn_frame f3 f2 setT1n_frame e)
qed

subsection \<open>Two propagators that do not commute\<close>

lemma exp_i_ne_1:
  assumes "0 < t" "t < 2 * pi"
  shows "exp (\<i> * complex_of_real t) \<noteq> 1"
proof
  assume "exp (\<i> * complex_of_real t) = 1"
  then have "cis t = 1" by (simp add: cis_conv_exp)
  then have "Re (cis t) = 1" by simp
  then have "cos t = 1" by simp
  then obtain n :: int where n: "t = of_int n * 2 * pi"
    using cos_one_2pi_int by auto
  from assms(1) have "0 < of_int n * (2 * pi)" by (simp add: n mult.assoc)
  then have "0 < n" by (simp add: zero_less_mult_iff)
  moreover from assms(2) have "of_int n * (2 * pi) < 1 * (2 * pi)" by (simp add: n mult.assoc)
  then have "real_of_int n < 1" by (simp only: mult_less_cancel_right) simp
  then have "n < 1" by simp
  ultimately show False by simp
qed

lemma phases_differ:
  assumes "0 < (a - b) * l" "(a - b) * l < 2 * pi"
  shows "exp (\<i> * complex_of_real a * complex_of_real l)
           - exp (\<i> * complex_of_real b * complex_of_real l) \<noteq> 0"
proof
  assume "exp (\<i> * complex_of_real a * complex_of_real l)
           - exp (\<i> * complex_of_real b * complex_of_real l) = 0"
  then have "exp (\<i> * complex_of_real a * complex_of_real l)
           = exp (\<i> * complex_of_real b * complex_of_real l)" by simp
  then have "exp (\<i> * complex_of_real a * complex_of_real l
                  - \<i> * complex_of_real b * complex_of_real l) = 1"
    by (simp add: exp_diff)
  moreover have "\<i> * complex_of_real a * complex_of_real l
                  - \<i> * complex_of_real b * complex_of_real l
               = \<i> * complex_of_real ((a - b) * l)"
    by (simp add: algebra_simps)
  ultimately have "exp (\<i> * complex_of_real ((a - b) * l)) = 1" by simp
  with exp_i_ne_1[OF assms] show False by simp
qed

lemma block_commutator:
  fixes e2 e3 f2 f3 :: complex and c s c' s' :: real
  shows "((e2 * of_real (s * s) + e3 * of_real (c * c)) * (f3 * of_real (s' * c') - f2 * of_real (c' * s'))
          + (e3 * of_real (s * c) - e2 * of_real (c * s)) * (f2 * of_real (c' * c') + f3 * of_real (s' * s')))
       - ((f2 * of_real (s' * s') + f3 * of_real (c' * c')) * (e3 * of_real (s * c) - e2 * of_real (c * s))
          + (f3 * of_real (s' * c') - f2 * of_real (c' * s')) * (e2 * of_real (c * c) + e3 * of_real (s * s)))
       = (e3 - e2) * (f3 - f2)
           * of_real (s' * c' * (c * c - s * s) - s * c * (c' * c' - s' * s'))"
  by (simp add: algebra_simps)

lemma half_angle_difference:
  fixes y y' :: real
  shows "sin y' * cos y' * (cos y * cos y - sin y * sin y)
           - sin y * cos y * (cos y' * cos y' - sin y' * sin y')
         = 1 / 2 * sin (2 * y' - 2 * y)"
proof -
  have "sin (2 * y' - 2 * y) = sin (2 * y') * cos (2 * y) - cos (2 * y') * sin (2 * y)"
    by (rule sin_diff)
  also have "\<dots> = (2 * sin y' * cos y') * ((cos y)\<^sup>2 - (sin y)\<^sup>2)
                   - ((cos y')\<^sup>2 - (sin y')\<^sup>2) * (2 * sin y * cos y)"
    by (simp only: sin_double cos_double)
  finally show ?thesis by (simp add: power2_eq_square algebra_simps)
qed

lemma propagator_fields:
  assumes upd: "update_params kw self0 = Returned self" and psi: "Psi self = 0"
    and run: "SetDomainN D self = Returned (U, self')"
    and i: "i < nat (Nd self)"
  shows "m10 (slice (Un_attr self') i) = 0" "m02 (slice (Un_attr self') i) = 0"
    "m11 (slice (Un_attr self') i)
       = exp (\<i> * complex_of_real (EW2 self' ! i) * complex_of_real (Lcoh self' ! i))
           * of_real (sin (the_Fin (alph self' ! i)) * sin (the_Fin (alph self' ! i)))
         + exp (\<i> * complex_of_real (EW3 self' ! i) * complex_of_real (Lcoh self' ! i))
           * of_real (cos (the_Fin (alph self' ! i)) * cos (the_Fin (alph self' ! i)))"
    "m12 (slice (Un_attr self') i)
       = exp (\<i> * complex_of_real (EW3 self' ! i) * complex_of_real (Lcoh self' ! i))
           * of_real (sin (the_Fin (alph self' ! i)) * cos (the_Fin (alph self' ! i)))
         - exp (\<i> * complex_of_real (EW2 self' ! i) * complex_of_real (Lcoh self' ! i))
           * of_real (cos (the_Fin (alph self' ! i)) * sin (the_Fin (alph self' ! i)))"
    "m22 (slice (Un_attr self') i)
       = exp (\<i> * complex_of_real (EW2 self' ! i) * complex_of_real (Lcoh self' ! i))
           * of_real (cos (the_Fin (alph self' ! i)) * cos (the_Fin (alph self' ! i)))
         + exp (\<i> * complex_of_real (EW3 self' ! i) * complex_of_real (Lcoh self' ! i))
           * of_real (sin (the_Fin (alph self' ! i)) * sin (the_Fin (alph self' ! i)))"
  unfolding SetDomainN_propagator[OF upd run i] SetDomainN_projectors(3,4,5)[OF upd run i]
  by (simp_all add: zip_mat3_def map_mat3_def psi)

lemma sqrt_small:
  assumes "0 < x" "x < 1 / 16"
  shows "0 < sqrt x" "sqrt x < 1 / 4"
proof -
  show "0 < sqrt x" using assms(1) by simp
  have "sqrt x < sqrt (1 / 16)" using assms(2) by (simp only: real_sqrt_less_iff)
  moreover have "sqrt (16 :: real) = 4" using real_sqrt_abs[of 4] by simp
  ultimately show "sqrt x < 1 / 4" by (simp add: real_sqrt_divide)
qed

lemma gap_window:
  assumes "0 < x" "x < 1 / 16" "0 < l" "l \<le> 12"
  shows "0 < sqrt x * l" "sqrt x * l < 2 * pi"
proof -
  note s = sqrt_small[OF assms(1,2)]
  show "0 < sqrt x * l" using s(1) assms(3) by simp
  have "sqrt x * l \<le> sqrt x * 12" using s(1) assms(4) by simp
  also have "\<dots> < 1 / 4 * 12" using s(2) by simp
  also have "\<dots> < 2 * pi" using pi_ge_two by simp
  finally show "sqrt x * l < 2 * pi" .
qed

lemma angles_differ: "sin (2 * (1 / 2 * arctan (64 / 519)) - 2 * (1 / 2 * arctan (4 / 9))) \<noteq> 0"
proof -
  have lt: "arctan (64 / 519) < arctan (4 / 9 :: real)"
    by (simp add: arctan_less_iff)
  define d where "d = arctan (4 / 9 :: real) - arctan (64 / 519)"
  have "0 < d" using lt by (simp add: d_def)
  moreover have "d < pi"
    using arctan_ubound[of "4 / 9"] arctan_lbound[of "64 / 519"] by (simp add: d_def)
  ultimately have "0 < sin d" by (rule sin_gt_zero)
  moreover have "sin (2 * (1 / 2 * arctan (64 / 519)) - 2 * (1 / 2 * arctan (4 / 9))) = - sin d"
    by (simp add: d_def flip: sin_minus)
  ultimately show ?thesis by simp
qed

lemma propagators_ex_differ:
  assumes run: "SetDomainN deltas_ex st_ex = Returned (U, self')"
  shows "m12 (dot (slice (Un_attr self') 0) (slice (Un_attr self') 1))
           \<noteq> m12 (dot (slice (Un_attr self') 1) (slice (Un_attr self') 0))"
proof -
  obtain s1 where s1: "setEW deltas_ex st_ex = Returned s1" and fr: "EW2 self' = EW2 s1"
    "EW3 self' = EW3 s1" "Lcoh self' = Lcoh st_ex" "alph self' = alph s1"
    using SetDomainN_frame[OF upd_ex run] by blast
  note ex = setEW_ex[OF s1]
  have psi: "Psi st_ex = 0" by (simp add: sel_ex)
  have i0: "0 < nat (Nd st_ex)" and i1: "1 < nat (Nd st_ex)" by (simp_all add: Nd_st_ex)
  note F0 = propagator_fields[OF upd_ex psi run i0]
  note F1 = propagator_fields[OF upd_ex psi run i1]
  define y0 where "y0 = 1 / 2 * arctan (4 / 9 :: real)"
  define y1 where "y1 = 1 / 2 * arctan (64 / 519 :: real)"
  have al: "the_Fin (alph self' ! 0) = y0" "the_Fin (alph self' ! 1) = y1"
    by (simp_all add: fr(4) ex(1) y0_def y1_def)
  define e2 where "e2 = exp (\<i> * complex_of_real (EW2 self' ! 0) * complex_of_real (Lcoh self' ! 0))"
  define e3 where "e3 = exp (\<i> * complex_of_real (EW3 self' ! 0) * complex_of_real (Lcoh self' ! 0))"
  define f2 where "f2 = exp (\<i> * complex_of_real (EW2 self' ! 1) * complex_of_real (Lcoh self' ! 1))"
  define f3 where "f3 = exp (\<i> * complex_of_real (EW3 self' ! 1) * complex_of_real (Lcoh self' ! 1))"
  have g0: "(EW3 self' ! 0 - EW2 self' ! 0) * Lcoh self' ! 0 = sqrt (97 / 4000000) * 3"
    using setEW_gap[OF upd_ex s1 i0] by (simp add: fr ex sel_ex power2_eq_square)
  have g1: "(EW3 self' ! 1 - EW2 self' ! 1) * Lcoh self' ! 1
              = sqrt ((519 / 512000)\<^sup>2 + 4 * (1 / 16000)\<^sup>2) * 12"
    using setEW_gap[OF upd_ex s1 i1] by (simp add: fr ex sel_ex)
  have w0: "0 < sqrt (97 / 4000000 :: real) * 3" "sqrt (97 / 4000000 :: real) * 3 < 2 * pi"
    by (rule gap_window; simp)+
  have w1: "0 < sqrt ((519 / 512000 :: real)\<^sup>2 + 4 * (1 / 16000)\<^sup>2) * 12"
    "sqrt ((519 / 512000 :: real)\<^sup>2 + 4 * (1 / 16000)\<^sup>2) * 12 < 2 * pi"
    by (rule gap_window; simp add: power2_eq_square)+
  have d0: "e3 - e2 \<noteq> 0"
    unfolding e2_def e3_def by (rule phases_differ) (simp_all only: g0 w0)
  have d1: "f3 - f2 \<noteq> 0"
    unfolding f2_def f3_def by (rule phases_differ) (simp_all only: g1 w1)
  have "m12 (dot (slice (Un_attr self') 0) (slice (Un_attr self') 1))
          - m12 (dot (slice (Un_attr self') 1) (slice (Un_attr self') 0))
        = ((e2 * of_real (sin y0 * sin y0) + e3 * of_real (cos y0 * cos y0))
              * (f3 * of_real (sin y1 * cos y1) - f2 * of_real (cos y1 * sin y1))
           + (e3 * of_real (sin y0 * cos y0) - e2 * of_real (cos y0 * sin y0))
              * (f2 * of_real (cos y1 * cos y1) + f3 * of_real (sin y1 * sin y1)))
        - ((f2 * of_real (sin y1 * sin y1) + f3 * of_real (cos y1 * cos y1))
              * (e3 * of_real (sin y0 * cos y0) - e2 * of_real (cos y0 * sin y0))
           + (f3 * of_real (sin y1 * cos y1) - f2 * of_real (cos y1 * sin y1))
              * (e2 * of_real (cos y0 * cos y0) + e3 * of_real (sin y0 * sin y0)))"
    by (simp only: dot_def mat3.simps F0 F1 al e2_def e3_def f2_def f3_def) simp
  also have "\<dots> = (e3 - e2) * (f3 - f2)
           * of_real (sin y1 * cos y1 * (cos y0 * cos y0 - sin y0 * sin y0)
                      - sin y0 * cos y0 * (cos y1 * cos y1 - sin y1 * sin y1))"
    by (rule block_commutator)
  also have "\<dots> = (e3 - e2) * (f3 - f2) * of_real (1 / 2 * sin (2 * y1 - 2 * y0))"
    by (simp only: half_angle_difference)
  finally have eq: "m12 (dot (slice (Un_attr self') 0) (slice (Un_attr self') 1))
          - m12 (dot (slice (Un_attr self') 1) (slice (Un_attr self') 0))
        = (e3 - e2) * (f3 - f2) * of_real (1 / 2 * sin (2 * y1 - 2 * y0))" .
  have "sin (2 * y1 - 2 * y0) \<noteq> 0"
    unfolding y0_def y1_def by (rule angles_differ)
  then have "(e3 - e2) * (f3 - f2) * complex_of_real (1 / 2 * sin (2 * y1 - 2 * y0)) \<noteq> 0"
    using d0 d1 by simp
  with eq show ?thesis by auto
qed

subsection \<open>The mixing angles are finite or \<open>nan\<close>\<close>

lemma mixing_angle_Fin_or_NaN: "mixing_angle ag par a = NaN \<or> is_Fin (mixing_angle ag par a)"
  by (simp add: mixing_angle_def np_divide_def np_arctan_def xscale_def)

lemma setEW_alph_values:
  assumes "setEW D self = Returned s1" and "x \<in> set (alph s1)"
  shows "x = NaN \<or> is_Fin x"
proof -
  from assms(1) obtain xs ys zs where "alph s1 = map3 mixing_angle xs ys zs"
    by (auto simp: setEW_def setDeltas_def obind_Returned Let_def split: if_splits)
  with assms(2) obtain ag par a where "x = mixing_angle ag par a"
    by (auto simp: map3_def)
  then show ?thesis using mixing_angle_Fin_or_NaN by simp
qed

lemma setEW_all_Fin:
  assumes "setEW D self = Returned s1"
  shows "list_all is_Fin (alph s1) \<longleftrightarrow> NaN \<notin> set (alph s1)"
proof
  assume "list_all is_Fin (alph s1)"
  then show "NaN \<notin> set (alph s1)" by (auto simp: list_all_iff)
next
  assume n: "NaN \<notin> set (alph s1)"
  show "list_all is_Fin (alph s1)"
    unfolding list_all_iff
  proof
    fix x assume x: "x \<in> set (alph s1)"
    from setEW_alph_values[OF assms x] n x show "is_Fin x" by auto
  qed
qed

section \<open>Eigenvalue ordering\<close>

text \<open>
  Claim C8: on an object configured by \<^verbatim>\<open>update_params\<close>, \<^verbatim>\<open>__setEW\<close> returns, and in
  every domain \<open>i\<close> and for all real values of the four collaborators the oscillation
  scale \<open>Dosc = sqrt((Dpar - Da)\<^sup>2 + 4 Dag\<^sup>2)\<close> is at least \<open>0\<close>, so that
  \<open>EW2 = 0.5 (Dpar + Da - Dosc)\<close> is at most \<open>EW3 = 0.5 (Dpar + Da + Dosc)\<close>.
\<close>

theorem eigenvalue_ordering:
  assumes "update_params kw self0 = Returned self" and "i < nat (Nd self)"
  shows "\<exists>self'. setEW D self = Returned self'
           \<and> length (Dosc self') = nat (Nd self)
           \<and> length (EW2 self') = nat (Nd self) \<and> length (EW3 self') = nat (Nd self)
           \<and> Dosc self' ! i = sqrt ((Dpar self' ! i - Da self' ! i)\<^sup>2 + 4 * (Dag self' ! i)\<^sup>2)
           \<and> 0 \<le> Dosc self' ! i
           \<and> EW2 self' ! i = 1 / 2 * (Dpar self' ! i + Da self' ! i - Dosc self' ! i)
           \<and> EW3 self' ! i = 1 / 2 * (Dpar self' ! i + Da self' ! i + Dosc self' ! i)
           \<and> EW2 self' ! i \<le> EW3 self' ! i"
proof -
  note sh = update_params_Returned[OF assms(1)]
  from sh(1) have nd: "\<not> Nd self < 0" by simp
  show ?thesis
    using assms(2) sh(4,5) nd
    by (simp add: setEW_def setDeltas_def obind_def Let_def length_map3 nth_map3)
qed

text \<open>The witness of C8: the first of the two domains of the configuration \<open>kw_ex\<close>.\<close>

theorem eigenvalue_ordering_witness:
  "update_params kw_ex blank = Returned st_ex \<and> (0::nat) < nat (Nd st_ex) \<and>
   (\<exists>self'. setEW deltas_ex st_ex = Returned self'
           \<and> length (Dosc self') = nat (Nd st_ex)
           \<and> length (EW2 self') = nat (Nd st_ex) \<and> length (EW3 self') = nat (Nd st_ex)
           \<and> Dosc self' ! 0 = sqrt ((Dpar self' ! 0 - Da self' ! 0)\<^sup>2 + 4 * (Dag self' ! 0)\<^sup>2)
           \<and> 0 \<le> Dosc self' ! 0
           \<and> EW2 self' ! 0 = 1 / 2 * (Dpar self' ! 0 + Da self' ! 0 - Dosc self' ! 0)
           \<and> EW3 self' ! 0 = 1 / 2 * (Dpar self' ! 0 + Da self' ! 0 + Dosc self' ! 0)
           \<and> EW2 self' ! 0 \<le> EW3 self' ! 0)"
  using eigenvalue_ordering[OF upd_ex, of 0 deltas_ex] upd_ex by (simp add: Nd_st_ex)

section \<open>The top rows of the projector matrices\<close>

text \<open>
  Claim C3, as amended: after a propagation on a configured object, in every domain the
  entries \<open>(0,1)\<close> and \<open>(0,2)\<close> of \<open>T1\<close> and the entries \<open>(0,0)\<close>, \<open>(0,1)\<close> and \<open>(0,2)\<close>
  of \<open>T2\<close> and of \<open>T3\<close> are zero, as \<^verbatim>\<open>np.zeros\<close> left them; the entry \<open>(0,0)\<close> of \<open>T1\<close> is
  assigned, and holds the square of the cosine of \<open>Psi\<close>.
\<close>

theorem top_row_entries:
  assumes "update_params kw self0 = Returned self"
    and "SetDomainN D self = Returned (U, self')"
    and "i < nat (Nd self)"
  shows "m00 (T1 self') ! i = complex_of_real (cos (Psi self) * cos (Psi self))
       \<and> m01 (T1 self') ! i = 0 \<and> m02 (T1 self') ! i = 0
       \<and> m00 (T2 self') ! i = 0 \<and> m01 (T2 self') ! i = 0 \<and> m02 (T2 self') ! i = 0
       \<and> m00 (T3 self') ! i = 0 \<and> m01 (T3 self') ! i = 0 \<and> m02 (T3 self') ! i = 0"
proof -
  note p = SetDomainN_projectors(3,4,5)[OF assms]
  have "m00 (slice (T1 self') i) = complex_of_real (cos (Psi self) * cos (Psi self))"
    "m01 (slice (T1 self') i) = 0" "m02 (slice (T1 self') i) = 0"
    by (simp_all only: p(1) mat3.simps)
  moreover have "m00 (slice (T2 self') i) = 0"
    "m01 (slice (T2 self') i) = 0" "m02 (slice (T2 self') i) = 0"
    by (simp_all only: p(2) mat3.simps)
  moreover have "m00 (slice (T3 self') i) = 0"
    "m01 (slice (T3 self') i) = 0" "m02 (slice (T3 self') i) = 0"
    by (simp_all only: p(3) mat3.simps)
  ultimately show ?thesis
    by (simp add: slice_def map_mat3_def)
qed

text \<open>The witness of C3: the first domain of the configuration \<open>kw_ex\<close>.\<close>

theorem top_row_entries_witness:
  "update_params kw_ex blank = Returned st_ex \<and> (0::nat) < nat (Nd st_ex) \<and>
   (\<exists>U self'. SetDomainN deltas_ex st_ex = Returned (U, self')
       \<and> m00 (T1 self') ! 0 = complex_of_real (cos (Psi st_ex) * cos (Psi st_ex))
       \<and> m01 (T1 self') ! 0 = 0 \<and> m02 (T1 self') ! 0 = 0
       \<and> m00 (T2 self') ! 0 = 0 \<and> m01 (T2 self') ! 0 = 0 \<and> m02 (T2 self') ! 0 = 0
       \<and> m00 (T3 self') ! 0 = 0 \<and> m01 (T3 self') ! 0 = 0 \<and> m02 (T3 self') ! 0 = 0)"
proof -
  obtain U self' where r: "SetDomainN deltas_ex st_ex = Returned (U, self')"
    using run_ex by blast
  have i: "(0::nat) < nat (Nd st_ex)" by (simp add: Nd_st_ex)
  show ?thesis
    using top_row_entries[OF upd_ex r i] upd_ex r i by blast
qed

text \<open>
  The counterexample to C3 as it is stated: with \<open>Psi = 0\<close> the entry \<open>(0,0)\<close> of \<open>T1\<close> is
  \<open>1\<close> in both domains after the propagation, not the zero of the default.
\<close>

theorem top_row_entries_counterexample:
  "update_params kw_ex blank = Returned st_ex
   \<and> map_option (m00 \<circ> T1 \<circ> snd) (returned (SetDomainN deltas_ex st_ex)) = Some [1, 1]"
proof -
  obtain U self' where r: "SetDomainN deltas_ex st_ex = Returned (U, self')"
    using run_ex by blast
  have "m00 (T1 self') = [1, 1]"
    using T1_m00_after[OF upd_ex r] by (simp add: st_ex_def eval_nat_numeral)
  then show ?thesis using upd_ex r by simp
qed

section \<open>The projector matrices sum to the identity when \<open>Psi = 0\<close>\<close>

text \<open>
  Claim C9: on an object configured with \<open>Psi = 0\<close>, for every domain index \<open>i\<close> and for
  every finite value of the mixing angles \<open>al\<close> (one for each domain), the three builders
  \<^verbatim>\<open>__setT1n\<close>, \<^verbatim>\<open>__setT2n\<close> and \<^verbatim>\<open>__setT3n\<close> return, and the matrices they build satisfy
  \<open>T1 + T2 + T3 = 1\<close> in domain \<open>i\<close>, although the top rows of \<open>T2\<close> and \<open>T3\<close> are left at
  zero.
\<close>

theorem projector_sum_identity:
  assumes "update_params kw self0 = Returned self" and "Psi self = 0"
    and "length al = nat (Nd self)" and "i < nat (Nd self)"
  shows "\<exists>s2 s3. setT2n (setT1n (self\<lparr>alph := map Fin al\<rparr>)) = Returned s2
           \<and> setT3n s2 = Returned s3
           \<and> zip_mat3 (+) (zip_mat3 (+) (slice (T1 s3) i) (slice (T2 s3) i)) (slice (T3 s3) i)
               = identity3"
proof -
  note sh = update_params_Returned[OF assms(1)]
  define s1 where "s1 = self\<lparr>alph := map Fin al\<rparr>"
  have a1: "slice (T1 (setT1n s1)) i =
     \<lparr> m00 = complex_of_real (cos 0 * cos 0), m01 = 0, m02 = 0,
       m10 = 0, m11 = complex_of_real (sin 0 * sin 0), m12 = 0,
       m20 = 0, m21 = 0, m22 = 0 \<rparr>"
    by (rule setT1n_slice[where N = "Nd self"]) (simp_all add: s1_def sh assms)
  obtain s2 where s2: "setT2n (setT1n s1) = Returned s2" and a2: "slice (T2 s2) i =
     \<lparr> m00 = 0, m01 = 0, m02 = 0,
       m10 = 0, m11 = complex_of_real (cos 0 * cos 0 * sin (al ! i) * sin (al ! i)),
       m12 = complex_of_real (- 1 * cos 0 * cos (al ! i) * sin (al ! i)),
       m20 = 0, m21 = complex_of_real (- 1 * cos 0 * cos (al ! i) * sin (al ! i)),
       m22 = complex_of_real (cos (al ! i) * cos (al ! i)) \<rparr>"
    using setT2n_slice[where N = "Nd self" and s = "setT1n s1" and psi = 0 and al = al and i = i]
    by (auto simp: setT1n_frame s1_def sh assms)
  note f2 = setT2n_frame[OF s2]
  obtain s3 where s3: "setT3n s2 = Returned s3" and a3: "slice (T3 s3) i =
     \<lparr> m00 = 0, m01 = 0, m02 = 0,
       m10 = 0, m11 = complex_of_real (cos 0 * cos 0 * cos (al ! i) * cos (al ! i)),
       m12 = complex_of_real (cos 0 * sin (al ! i) * cos (al ! i)),
       m20 = 0, m21 = complex_of_real (cos 0 * sin (al ! i) * cos (al ! i)),
       m22 = complex_of_real (sin (al ! i) * sin (al ! i)) \<rparr>"
    using setT3n_slice[where N = "Nd self" and s = s2 and psi = 0 and al = al and i = i]
    by (auto simp: f2 setT1n_frame s1_def sh assms)
  note f3 = setT3n_frame[OF s3]
  have b1: "slice (T1 s3) i = slice (T1 (setT1n s1)) i" by (simp add: f3 f2)
  have b2: "slice (T2 s3) i = slice (T2 s2) i" by (simp add: f3)
  have trig: "complex_of_real (sin (al ! i) * sin (al ! i)) + complex_of_real (cos (al ! i) * cos (al ! i)) = 1"
  proof -
    have "sin (al ! i) * sin (al ! i) + cos (al ! i) * cos (al ! i) = 1"
      using sin_cos_squared_add[of "al ! i"] by (simp add: power2_eq_square)
    then show ?thesis by (metis of_real_add of_real_1)
  qed
  have trig': "complex_of_real (cos (al ! i) * cos (al ! i)) + complex_of_real (sin (al ! i) * sin (al ! i)) = 1"
    using trig by (simp add: add.commute)
  have "zip_mat3 (+) (zip_mat3 (+) (slice (T1 s3) i) (slice (T2 s3) i)) (slice (T3 s3) i) = identity3"
    unfolding b1 b2 a1 a2 a3 using trig trig'
    by (simp add: zip_mat3_def identity3_def mult.commute)
  then show ?thesis using s2 s3 unfolding s1_def by blast
qed

text \<open>The witness of C9: the configuration \<open>kw_ex\<close> with the angles \<open>1/2\<close> and \<open>1/3\<close>.\<close>

theorem projector_sum_identity_witness:
  "update_params kw_ex blank = Returned st_ex \<and> Psi st_ex = 0
   \<and> length [1 / 2, 1 / 3 :: real] = nat (Nd st_ex) \<and> (0::nat) < nat (Nd st_ex)
   \<and> (\<exists>s2 s3. setT2n (setT1n (st_ex\<lparr>alph := map Fin [1 / 2, 1 / 3]\<rparr>)) = Returned s2
           \<and> setT3n s2 = Returned s3
           \<and> zip_mat3 (+) (zip_mat3 (+) (slice (T1 s3) 0) (slice (T2 s3) 0)) (slice (T3 s3) 0)
               = identity3)"
proof -
  have a: "Psi st_ex = 0" by (simp add: st_ex_def)
  have b: "length [1 / 2, 1 / 3 :: real] = nat (Nd st_ex)" by (simp add: Nd_st_ex)
  have c: "(0::nat) < nat (Nd st_ex)" by (simp add: Nd_st_ex)
  show ?thesis
    using projector_sum_identity[OF upd_ex a b c] upd_ex a b c by blast
qed

section \<open>The domain count is monotone, not strictly\<close>

text \<open>
  Claim C7, as amended: for a fixed exponent \<open>p \<ge> 0\<close> and a fixed \<open>sens\<close> strictly between
  \<open>0\<close> and \<open>1\<close>, the domain count \<open>Nd = ceil(- p ln(Rmax / R_BLR) / ln(sens))\<close> of line 119
  is a finite integer and does not decrease when the (positive) ratio \<open>Rmax / R_BLR\<close>
  increases.
\<close>

theorem domain_count_monotone:
  assumes "0 < sens a" "sens a < 1" "0 \<le> p_attr a"
    and "sens b = sens a" "p_attr b = p_attr a"
    and "0 < Rmax a / R_BLR a" "Rmax a / R_BLR a \<le> Rmax b / R_BLR b"
  shows "\<exists>na nb. domain_count a = Fin (of_int na) \<and> domain_count b = Fin (of_int nb) \<and> na \<le> nb"
proof -
  let ?va = "- 1 * p_attr a * ln (Rmax a / R_BLR a) / ln (sens a)"
  let ?vb = "- 1 * p_attr b * ln (Rmax b / R_BLR b) / ln (sens b)"
  have a: "domain_count a = Fin (of_int \<lceil>?va\<rceil>)"
    using assms by (intro domain_count_real) simp_all
  have b: "domain_count b = Fin (of_int \<lceil>?vb\<rceil>)"
    using assms by (intro domain_count_real) simp_all
  have l: "ln (Rmax a / R_BLR a) \<le> ln (Rmax b / R_BLR b)"
    using assms(6,7) by simp
  have s: "ln (sens a) < 0" using assms by simp
  have "p_attr a * ln (Rmax a / R_BLR a) \<le> p_attr a * ln (Rmax b / R_BLR b)"
    using l assms(3) by (rule mult_left_mono)
  then have "?va \<le> ?vb"
    using s by (simp add: assms(4,5) divide_le_cancel)
  then have "\<lceil>?va\<rceil> \<le> \<lceil>?vb\<rceil>" by (rule ceiling_mono)
  with a b show ?thesis by blast
qed

text \<open>The witness of C7: the ratios \<open>2\<close> and \<open>4\<close> with \<open>sens = 1/4\<close> and \<open>p = 1\<close>.\<close>

theorem domain_count_monotone_witness:
  "0 < sens (dict_update [''Rmax'' \<mapsto> 2] st_ex) \<and> sens (dict_update [''Rmax'' \<mapsto> 2] st_ex) < 1
   \<and> 0 \<le> p_attr (dict_update [''Rmax'' \<mapsto> 2] st_ex)
   \<and> sens (dict_update [''Rmax'' \<mapsto> 4] st_ex) = sens (dict_update [''Rmax'' \<mapsto> 2] st_ex)
   \<and> p_attr (dict_update [''Rmax'' \<mapsto> 4] st_ex) = p_attr (dict_update [''Rmax'' \<mapsto> 2] st_ex)
   \<and> 0 < Rmax (dict_update [''Rmax'' \<mapsto> 2] st_ex) / R_BLR (dict_update [''Rmax'' \<mapsto> 2] st_ex)
   \<and> Rmax (dict_update [''Rmax'' \<mapsto> 2] st_ex) / R_BLR (dict_update [''Rmax'' \<mapsto> 2] st_ex)
       \<le> Rmax (dict_update [''Rmax'' \<mapsto> 4] st_ex) / R_BLR (dict_update [''Rmax'' \<mapsto> 4] st_ex)
   \<and> (\<exists>na nb. domain_count (dict_update [''Rmax'' \<mapsto> 2] st_ex) = Fin (of_int na)
         \<and> domain_count (dict_update [''Rmax'' \<mapsto> 4] st_ex) = Fin (of_int nb) \<and> na \<le> nb)"
  using domain_count_monotone[of "dict_update [''Rmax'' \<mapsto> 2] st_ex"
      "dict_update [''Rmax'' \<mapsto> 4] st_ex"]
  by (simp add: dict_sel kw_get_def sel_ex)

text \<open>
  The counterexample to C7 as it is stated: with \<open>sens = 1/4\<close> and \<open>p = 1\<close> the ratio
  grows from \<open>2\<close> to \<open>4\<close>, and \<^verbatim>\<open>update_params\<close> sets \<open>Nd = 1\<close> for both: the ceiling
  is a step function.
\<close>

theorem domain_count_monotone_counterexample:
  "sens (dict_update [''Rmax'' \<mapsto> 2] st_ex) = 1 / 4
   \<and> sens (dict_update [''Rmax'' \<mapsto> 4] st_ex) = 1 / 4
   \<and> p_attr (dict_update [''Rmax'' \<mapsto> 2] st_ex) = 1
   \<and> p_attr (dict_update [''Rmax'' \<mapsto> 4] st_ex) = 1
   \<and> Rmax (dict_update [''Rmax'' \<mapsto> 2] st_ex) / R_BLR (dict_update [''Rmax'' \<mapsto> 2] st_ex) = 2
   \<and> Rmax (dict_update [''Rmax'' \<mapsto> 4] st_ex) / R_BLR (dict_update [''Rmax'' \<mapsto> 4] st_ex) = 4
   \<and> map_option Nd (returned (update_params [''Rmax'' \<mapsto> 2] st_ex)) = Some 1
   \<and> map_option Nd (returned (update_params [''Rmax'' \<mapsto> 4] st_ex)) = Some 1"
proof -
  have "map_option Nd (returned (update_params [''Rmax'' \<mapsto> 2] st_ex)) = Some 1"
    by (rule Nd_of_count[OF _ count_ratio2]) (simp_all add: dict_sel kw_get_def sel_ex)
  moreover have "map_option Nd (returned (update_params [''Rmax'' \<mapsto> 4] st_ex)) = Some 1"
    by (rule Nd_of_count[OF _ count_ratio4]) (simp_all add: dict_sel kw_get_def sel_ex)
  ultimately show ?thesis by (simp add: dict_sel kw_get_def sel_ex)
qed

section \<open>The radius array\<close>

text \<open>
  Claim C5, as amended: for every valid configuration (\<open>0 < sens < 1\<close>, \<open>p > 0\<close>,
  \<open>0 < R_BLR < Rmax\<close>) \<^verbatim>\<open>update_params\<close> returns with at least one domain, the radius array
  \<open>r\<close> has \<open>Nd\<close> entries, one for each domain, and its entry \<open>0\<close> is
  \<open>R_BLR sens\<^bsup>-0/p\<^esup> = R_BLR\<close>.
\<close>

theorem radius_array:
  assumes "0 < sens (dict_update kw self0)" "sens (dict_update kw self0) < 1"
    and "0 < p_attr (dict_update kw self0)"
    and "0 < R_BLR (dict_update kw self0)"
    and "R_BLR (dict_update kw self0) < Rmax (dict_update kw self0)"
  shows "\<exists>self. update_params kw self0 = Returned self \<and> 1 \<le> Nd self
           \<and> length (r_attr self) = nat (Nd self)
           \<and> r_attr self ! 0 = R_BLR self * sens self powr (- 0 / p_attr self)
           \<and> r_attr self ! 0 = R_BLR self"
proof -
  let ?c = "dict_update kw self0"
  let ?k = "\<lceil>- 1 * p_attr ?c * ln (Rmax ?c / R_BLR ?c) / ln (sens ?c)\<rceil>"
  have k: "1 \<le> ?k" by (rule valid_count) (rule assms)+
  have dc: "domain_count ?c = Fin (of_int ?k)"
    using assms by (intro domain_count_real) simp_all
  have nz: "R_BLR ?c \<noteq> 0" using assms by simp
  from update_params_Fin(2)[OF nz dc] k
  obtain self where s: "update_params kw self0 = Returned self" "Nd self = ?k"
    "sens self = sens ?c" "R_BLR self = R_BLR ?c"
    "r_attr self = map (\<lambda>x. R_BLR self * sens self powr (- x / p_attr self))
                              (np_linspace 0 (of_int ?k) ?k)"
    by auto
  have len: "length (r_attr self) = nat (Nd self)"
    by (simp add: s(5) s(2) length_np_linspace)
  have hd: "np_linspace 0 (of_int ?k) ?k ! 0 = 0"
    using k by (simp add: np_linspace_def)
  have "r_attr self ! 0 = R_BLR self * sens self powr (- 0 / p_attr self)"
    using k hd by (simp add: s(5) length_np_linspace)
  moreover have "sens self \<noteq> 0" using assms(1) s(3) by simp
  ultimately show ?thesis using s(1,2) k len by auto
qed

text \<open>The witness of C5: the configuration \<open>kw_ex\<close>.\<close>

theorem radius_array_witness:
  "0 < sens (dict_update kw_ex blank) \<and> sens (dict_update kw_ex blank) < 1
   \<and> 0 < p_attr (dict_update kw_ex blank) \<and> 0 < R_BLR (dict_update kw_ex blank)
   \<and> R_BLR (dict_update kw_ex blank) < Rmax (dict_update kw_ex blank)
   \<and> (\<exists>self. update_params kw_ex blank = Returned self \<and> 1 \<le> Nd self
           \<and> length (r_attr self) = nat (Nd self)
           \<and> r_attr self ! 0 = R_BLR self * sens self powr (- 0 / p_attr self)
           \<and> r_attr self ! 0 = R_BLR self)"
  using radius_array[of kw_ex blank] by (simp add: dict_ex)

text \<open>
  The counterexample to C5 as it is stated: for \<open>R_BLR = 1\<close>, \<open>Rmax = 16\<close>, \<open>sens = 1/4\<close>
  and \<open>p = 1\<close> there are \<open>Nd = 2\<close> domains and \<open>r = [1, 16]\<close>: two entries, not three, and
  the entry \<open>1\<close> is \<open>16\<close>, not \<open>R_BLR sens\<^bsup>-1/p\<^esup> = 4\<close>
  (\<^verbatim>\<open>np.linspace(0., Nd, Nd)\<close> has the step \<open>Nd / (Nd - 1)\<close>).
\<close>

theorem radius_array_counterexample:
  "update_params kw_ex blank = Returned st_ex \<and> Nd st_ex = 2 \<and> r_attr st_ex = [1, 16]
   \<and> length (r_attr st_ex) \<noteq> nat (Nd st_ex + 1)
   \<and> R_BLR st_ex * sens st_ex powr (- 1 / p_attr st_ex) = 4"
  using upd_ex by (simp add: sel_ex Nd_st_ex pw1)

section \<open>No check of the configuration\<close>

text \<open>
  Claim C2, as amended: for \<open>0 < sens < 1\<close>, \<open>p > 0\<close> and \<open>0 < Rmax \<le> R_BLR\<close> the source checks
  no range. Either the domain count of line 119 is negative, and \<^verbatim>\<open>update_params\<close> fails when
  \<^verbatim>\<open>np.zeros\<close> refuses the negative dimension; or the count is zero, \<^verbatim>\<open>update_params\<close>
  returns normally with \<open>Nd = 0\<close>, and the propagation \<^verbatim>\<open>SetDomainN\<close> then fails on its
  unassigned local \<open>U\<close>.
\<close>

theorem no_range_check:
  assumes "0 < sens (dict_update kw self0)" "sens (dict_update kw self0) < 1"
    and "0 < p_attr (dict_update kw self0)"
    and "0 < Rmax (dict_update kw self0)"
    and "Rmax (dict_update kw self0) \<le> R_BLR (dict_update kw self0)"
  shows "(\<exists>k < 0. domain_count (dict_update kw self0) = Fin (of_int k)
            \<and> update_params kw self0
                = Raised (ValueError ''negative dimensions are not allowed''))
       \<or> (domain_count (dict_update kw self0) = Fin (of_int 0)
            \<and> (\<exists>self. update_params kw self0 = Returned self \<and> Nd self = 0
                  \<and> SetDomainN D self
                      = Raised (UnboundLocalError
                                 ''local variable U referenced before assignment'')))"
proof -
  let ?c = "dict_update kw self0"
  let ?v = "- 1 * p_attr ?c * ln (Rmax ?c / R_BLR ?c) / ln (sens ?c)"
  have pos: "0 < R_BLR ?c" using assms(4,5) by simp
  have r: "0 < Rmax ?c / R_BLR ?c" "Rmax ?c / R_BLR ?c \<le> 1"
    using assms(4,5) pos by simp_all
  have dc: "domain_count ?c = Fin (of_int \<lceil>?v\<rceil>)"
    using assms r by (intro domain_count_real) simp_all
  have nz: "R_BLR ?c \<noteq> 0" using pos by simp
  have "ln (Rmax ?c / R_BLR ?c) \<le> 0" using r by simp
  moreover have "ln (sens ?c) < 0" using assms by simp
  ultimately have "0 \<le> ln (Rmax ?c / R_BLR ?c) / ln (sens ?c)"
    by (simp add: divide_nonpos_neg)
  then have "0 \<le> p_attr ?c * (ln (Rmax ?c / R_BLR ?c) / ln (sens ?c))"
    using assms(3) by (intro mult_nonneg_nonneg) simp_all
  then have "?v \<le> 0" by simp
  then have k: "\<lceil>?v\<rceil> \<le> 0" by (simp add: ceiling_le_zero)
  show ?thesis
  proof (cases "\<lceil>?v\<rceil> < 0")
    case True
    then show ?thesis using update_params_Fin(1)[OF nz dc] dc by blast
  next
    case False
    then have "0 \<le> \<lceil>?v\<rceil>" by (simp only: linorder_not_less)
    with k have z: "\<lceil>?v\<rceil> = 0" by (rule antisym)
    have dc0: "domain_count ?c = Fin (of_int 0)" using dc by (simp only: z)
    from update_params_Fin(2)[OF nz dc0 order_refl]
    obtain self where s: "update_params kw self0 = Returned self" "Nd self = 0" by blast
    from SetDomainN_zero[OF s] s dc0 show ?thesis by blast
  qed
qed

text \<open>The witness of C2: \<open>Rmax = R_BLR = 1\<close> with \<open>sens = 1/4\<close> and \<open>p = 1\<close>.\<close>

theorem no_range_check_witness:
  "0 < sens (dict_update [''Rmax'' \<mapsto> 1] st_ex) \<and> sens (dict_update [''Rmax'' \<mapsto> 1] st_ex) < 1
   \<and> 0 < p_attr (dict_update [''Rmax'' \<mapsto> 1] st_ex)
   \<and> 0 < Rmax (dict_update [''Rmax'' \<mapsto> 1] st_ex)
   \<and> Rmax (dict_update [''Rmax'' \<mapsto> 1] st_ex) \<le> R_BLR (dict_update [''Rmax'' \<mapsto> 1] st_ex)
   \<and> domain_count (dict_update [''Rmax'' \<mapsto> 1] st_ex) = Fin (of_int 0)
   \<and> (\<exists>self. update_params [''Rmax'' \<mapsto> 1] st_ex = Returned self \<and> Nd self = 0
          \<and> SetDomainN deltas_ex self
               = Raised (UnboundLocalError ''local variable U referenced before assignment''))"
  using no_range_check[of "[''Rmax'' \<mapsto> 1]" st_ex deltas_ex] count_ratio1
  by (simp add: dict_sel kw_get_def sel_ex)

text \<open>
  The counterexample to C2 as it is stated: with \<open>Rmax = R_BLR\<close> and \<open>sens = 1/4\<close> the
  update returns normally with a domain count of zero; and with \<open>sens = 4\<close>, outside
  \<open>(0,1)\<close>, and \<open>Rmax = 1 < R_BLR = 16\<close> it returns normally with two domains.
\<close>

theorem no_range_check_counterexample:
  "Rmax (dict_update [''Rmax'' \<mapsto> 1] st_ex) = R_BLR (dict_update [''Rmax'' \<mapsto> 1] st_ex)
   \<and> sens (dict_update [''Rmax'' \<mapsto> 1] st_ex) = 1 / 4
   \<and> map_option Nd (returned (update_params [''Rmax'' \<mapsto> 1] st_ex)) = Some 0
   \<and> sens (dict_update [''sens'' \<mapsto> 4, ''R_BLR'' \<mapsto> 16, ''Rmax'' \<mapsto> 1] st_ex) = 4
   \<and> map_option Nd (returned (update_params [''sens'' \<mapsto> 4, ''R_BLR'' \<mapsto> 16, ''Rmax'' \<mapsto> 1] st_ex))
       = Some 2"
proof -
  have "map_option Nd (returned (update_params [''Rmax'' \<mapsto> 1] st_ex)) = Some 0"
    by (rule Nd_of_count[OF _ count_ratio1]) (simp_all add: dict_sel kw_get_def sel_ex)
  moreover have "map_option Nd (returned (update_params
       [''sens'' \<mapsto> 4, ''R_BLR'' \<mapsto> 16, ''Rmax'' \<mapsto> 1] st_ex)) = Some 2"
    by (rule Nd_of_count[OF _ count_inverted]) (simp_all add: dict_sel kw_get_def sel_ex)
  ultimately show ?thesis by (simp add: dict_sel kw_get_def sel_ex)
qed

section \<open>The coherence lengths and the extent of the jet\<close>

text \<open>
  Claim C4, as amended: for every valid configuration (\<open>0 < sens < 1\<close>, \<open>p > 0\<close>,
  \<open>0 < R_BLR < Rmax\<close>) \<^verbatim>\<open>update_params\<close> returns with at least one domain, and the
  coherence lengths of its \<open>Nd\<close> domains add up to
  \<open>C (R_BLR sens\<^bsup>-Nd/p\<^esup> - R_BLR)\<close> with the factor
  \<open>C = (1 - sens) / (1 - sens\<^bsup>1/p\<^esup>)\<close>; the sum is at least \<open>C (Rmax - R_BLR)\<close> and at
  most \<open>C (Rmax sens\<^bsup>-1/p\<^esup> - R_BLR)\<close>. For \<open>p = 1\<close> the factor is \<open>1\<close>: the sum is
  \<open>R_BLR sens\<^bsup>-Nd\<^esup> - R_BLR\<close>, at least \<open>Rmax - R_BLR\<close> and at most
  \<open>Rmax / sens - R_BLR\<close>. The upper bounds are attained when the count is one more than
  the exact quotient, as the rounded quotient of line 119 gives on an exact power.
\<close>

theorem grid_coverage:
  assumes "0 < sens (dict_update kw self0)" "sens (dict_update kw self0) < 1"
    and "0 < p_attr (dict_update kw self0)"
    and "0 < R_BLR (dict_update kw self0)"
    and "R_BLR (dict_update kw self0) < Rmax (dict_update kw self0)"
  shows "\<exists>self. update_params kw self0 = Returned self \<and> 1 \<le> Nd self
           \<and> length (Lcoh self) = nat (Nd self)
           \<and> sum_list (Lcoh self)
               = (1 - sens self) / (1 - sens self powr (1 / p_attr self))
                 * (R_BLR self * sens self powr (- of_int (Nd self) / p_attr self) - R_BLR self)
           \<and> (1 - sens self) / (1 - sens self powr (1 / p_attr self)) * (Rmax self - R_BLR self)
               \<le> sum_list (Lcoh self)
           \<and> sum_list (Lcoh self)
               \<le> (1 - sens self) / (1 - sens self powr (1 / p_attr self))
                   * (Rmax self * sens self powr (- 1 / p_attr self) - R_BLR self)
           \<and> (p_attr self = 1 \<longrightarrow>
                 sum_list (Lcoh self) = R_BLR self * sens self powr (- of_int (Nd self)) - R_BLR self
               \<and> Rmax self - R_BLR self \<le> sum_list (Lcoh self)
               \<and> sum_list (Lcoh self) \<le> Rmax self / sens self - R_BLR self)"
proof -
  let ?c = "dict_update kw self0"
  define s where "s = sens ?c"
  define p where "p = p_attr ?c"
  define R where "R = R_BLR ?c"
  define M where "M = Rmax ?c"
  define K where "K = \<lceil>- 1 * p * ln (M / R) / ln s\<rceil>"
  have s: "0 < s" "s < 1" and p: "0 < p" and R: "0 < R" and M: "R < M"
    using assms by (simp_all add: s_def p_def R_def M_def)
  have k: "1 \<le> K"
    unfolding K_def s_def p_def R_def M_def by (rule valid_count) (rule assms)+
  have ratio: "0 < M / R" using R M by simp
  have dc: "domain_count ?c = Fin (of_int K)"
    unfolding K_def s_def p_def R_def M_def using assms ratio
    by (intro domain_count_real) (simp_all add: R_def M_def)
  have nz: "R_BLR ?c \<noteq> 0" using R by (simp add: R_def)
  from update_params_Fin(2)[OF nz dc] k
  obtain self where u: "update_params kw self0 = Returned self" and f: "Nd self = K"
    "sens self = s" "p_attr self = p" "R_BLR self = R" "Rmax self = M"
    and lc: "Lcoh self = map (\<lambda>x. R_BLR self * sens self powr (- x / p_attr self) * (1 - sens self))
                              (np_linspace 1 (of_int K) K)"
    unfolding s_def p_def R_def M_def by auto
  have len: "length (Lcoh self) = nat K"
    by (simp add: lc length_np_linspace)
  define D where "D = 1 - s powr (1 / p)"
  have D: "0 < D" using powr_below_one[OF s, of "1 / p"] p by (simp add: D_def)
  define C where "C = (1 - s) / D"
  have C: "0 \<le> C" using s D by (simp add: C_def)
  define S where "S = sum_list (Lcoh self)"
  have "Lcoh self = map (\<lambda>j. R * s powr (- (real j + 1) / p) * (1 - s)) [0..<nat K]"
    by (simp add: lc f np_linspace_from_one[OF k] o_def diff_divide_distrib add_divide_distrib)
  then have "S * D = (1 - s) * (R * s powr (- real (nat K) / p) - R)"
    unfolding S_def D_def by (simp only: geometric_lengths[OF s(1)])
  moreover have "real (nat K) = of_int K" using k by simp
  ultimately have "S * D = (1 - s) * (R * s powr (- of_int K / p) - R)" by simp
  then have sum: "S = C * (R * s powr (- of_int K / p) - R)"
    using D by (simp add: C_def field_simps)
  note b = count_bounds[OF s ratio p K_def]
  have "R * (M / R) \<le> R * s powr (- of_int K / p)"
    using b(1) R by (intro mult_left_mono) simp_all
  then have "M - R \<le> R * s powr (- of_int K / p) - R" using R by simp
  then have lo: "C * (M - R) \<le> S"
    unfolding sum using C by (rule mult_left_mono)
  have "R * s powr (- of_int K / p) \<le> R * (M / R * s powr (- 1 / p))"
    using b(2) R by (intro mult_left_mono) simp_all
  then have "R * s powr (- of_int K / p) - R \<le> M * s powr (- 1 / p) - R" using R by simp
  then have hi: "S \<le> C * (M * s powr (- 1 / p) - R)"
    unfolding sum using C by (rule mult_left_mono)
  have one: "p = 1 \<longrightarrow> S = R * s powr (- of_int K) - R \<and> M - R \<le> S \<and> S \<le> M / s - R"
  proof
    assume p1: "p = 1"
    have "D = 1 - s" using s by (simp add: D_def p1)
    then have C1: "C = 1" using s by (simp add: C_def)
    have inv: "s powr (- 1) = 1 / s" using s by (simp add: powr_minus divide_inverse)
    have abs: "\<bar>s\<bar> = s" using s by simp
    from sum lo hi show "S = R * s powr (- of_int K) - R \<and> M - R \<le> S \<and> S \<le> M / s - R"
      by (simp add: C1 p1 inv abs)
  qed
  have "update_params kw self0 = Returned self \<and> 1 \<le> Nd self
           \<and> length (Lcoh self) = nat (Nd self)
           \<and> sum_list (Lcoh self)
               = (1 - sens self) / (1 - sens self powr (1 / p_attr self))
                 * (R_BLR self * sens self powr (- of_int (Nd self) / p_attr self) - R_BLR self)
           \<and> (1 - sens self) / (1 - sens self powr (1 / p_attr self)) * (Rmax self - R_BLR self)
               \<le> sum_list (Lcoh self)
           \<and> sum_list (Lcoh self)
               \<le> (1 - sens self) / (1 - sens self powr (1 / p_attr self))
                   * (Rmax self * sens self powr (- 1 / p_attr self) - R_BLR self)
           \<and> (p_attr self = 1 \<longrightarrow>
                 sum_list (Lcoh self) = R_BLR self * sens self powr (- of_int (Nd self)) - R_BLR self
               \<and> Rmax self - R_BLR self \<le> sum_list (Lcoh self)
               \<and> sum_list (Lcoh self) \<le> Rmax self / sens self - R_BLR self)"
    unfolding f S_def[symmetric]
    using u k len sum lo hi one by (simp only: C_def D_def)
  then show ?thesis by blast
qed

text \<open>The witness of C4: the configuration \<open>kw_ex\<close>, where \<open>p = 1\<close>.\<close>

theorem grid_coverage_witness:
  "0 < sens (dict_update kw_ex blank) \<and> sens (dict_update kw_ex blank) < 1
   \<and> 0 < p_attr (dict_update kw_ex blank) \<and> 0 < R_BLR (dict_update kw_ex blank)
   \<and> R_BLR (dict_update kw_ex blank) < Rmax (dict_update kw_ex blank)
   \<and> update_params kw_ex blank = Returned st_ex \<and> 1 \<le> Nd st_ex
   \<and> length (Lcoh st_ex) = nat (Nd st_ex)
   \<and> sum_list (Lcoh st_ex)
       = (1 - sens st_ex) / (1 - sens st_ex powr (1 / p_attr st_ex))
         * (R_BLR st_ex * sens st_ex powr (- of_int (Nd st_ex) / p_attr st_ex) - R_BLR st_ex)
   \<and> (1 - sens st_ex) / (1 - sens st_ex powr (1 / p_attr st_ex)) * (Rmax st_ex - R_BLR st_ex)
       \<le> sum_list (Lcoh st_ex)
   \<and> sum_list (Lcoh st_ex)
       \<le> (1 - sens st_ex) / (1 - sens st_ex powr (1 / p_attr st_ex))
           * (Rmax st_ex * sens st_ex powr (- 1 / p_attr st_ex) - R_BLR st_ex)
   \<and> p_attr st_ex = 1
   \<and> sum_list (Lcoh st_ex) = R_BLR st_ex * sens st_ex powr (- of_int (Nd st_ex)) - R_BLR st_ex
   \<and> Rmax st_ex - R_BLR st_ex \<le> sum_list (Lcoh st_ex)
   \<and> sum_list (Lcoh st_ex) \<le> Rmax st_ex / sens st_ex - R_BLR st_ex"
proof -
  have h: "0 < sens (dict_update kw_ex blank)" "sens (dict_update kw_ex blank) < 1"
    "0 < p_attr (dict_update kw_ex blank)" "0 < R_BLR (dict_update kw_ex blank)"
    "R_BLR (dict_update kw_ex blank) < Rmax (dict_update kw_ex blank)"
    by (simp_all add: dict_ex)
  have p1: "p_attr st_ex = 1" by (simp add: sel_ex)
  from grid_coverage[OF h] upd_ex p1 h show ?thesis by auto
qed

text \<open>
  The counterexample to C4 as it is stated, at two valid configurations with
  \<open>R_BLR = 1\<close> and \<open>sens = 1/4\<close>. With \<open>Rmax = 4\<close> and \<open>p = 2\<close> the two domains have the
  lengths \<open>3/2\<close> and \<open>3\<close>: their sum \<open>9/2\<close> exceeds \<open>Rmax - R_BLR = 3\<close> by a half of it.
  With \<open>Rmax = 5\<close> and \<open>p = 1\<close> the two domains have the lengths \<open>3\<close> and \<open>12\<close>: their
  sum \<open>15\<close> is nearly four times \<open>Rmax - R_BLR = 4\<close>.
\<close>

theorem grid_coverage_counterexample:
  "sens (dict_update [''Rmax'' \<mapsto> 4, ''p'' \<mapsto> 2] st_ex) = 1 / 4
   \<and> p_attr (dict_update [''Rmax'' \<mapsto> 4, ''p'' \<mapsto> 2] st_ex) = 2
   \<and> R_BLR (dict_update [''Rmax'' \<mapsto> 4, ''p'' \<mapsto> 2] st_ex) = 1
   \<and> Rmax (dict_update [''Rmax'' \<mapsto> 4, ''p'' \<mapsto> 2] st_ex) = 4
   \<and> map_option Nd (returned (update_params [''Rmax'' \<mapsto> 4, ''p'' \<mapsto> 2] st_ex)) = Some 2
   \<and> map_option Lcoh (returned (update_params [''Rmax'' \<mapsto> 4, ''p'' \<mapsto> 2] st_ex))
        = Some [3 / 2, 3]
   \<and> sum_list [3 / 2, 3 :: real] = 9 / 2
   \<and> Rmax (dict_update [''Rmax'' \<mapsto> 4, ''p'' \<mapsto> 2] st_ex)
        - R_BLR (dict_update [''Rmax'' \<mapsto> 4, ''p'' \<mapsto> 2] st_ex) = 3
   \<and> sens (dict_update [''Rmax'' \<mapsto> 5] st_ex) = 1 / 4
   \<and> p_attr (dict_update [''Rmax'' \<mapsto> 5] st_ex) = 1
   \<and> R_BLR (dict_update [''Rmax'' \<mapsto> 5] st_ex) = 1
   \<and> Rmax (dict_update [''Rmax'' \<mapsto> 5] st_ex) = 5
   \<and> map_option Nd (returned (update_params [''Rmax'' \<mapsto> 5] st_ex)) = Some 2
   \<and> map_option Lcoh (returned (update_params [''Rmax'' \<mapsto> 5] st_ex)) = Some [3, 12]
   \<and> sum_list [3, 12 :: real] = 15
   \<and> Rmax (dict_update [''Rmax'' \<mapsto> 5] st_ex) - R_BLR (dict_update [''Rmax'' \<mapsto> 5] st_ex) = 4"
proof -
  have nz: "R_BLR (dict_update [''Rmax'' \<mapsto> 4, ''p'' \<mapsto> 2] st_ex) \<noteq> 0"
    by (simp add: dict_sel kw_get_def sel_ex)
  have a: "map_option Nd (returned (update_params [''Rmax'' \<mapsto> 4, ''p'' \<mapsto> 2] st_ex)) = Some 2"
    by (rule Nd_of_count[OF nz count_poloidal]) simp
  have b: "map_option Lcoh (returned (update_params [''Rmax'' \<mapsto> 4, ''p'' \<mapsto> 2] st_ex))
        = Some [3 / 2, 3]"
    by (subst Lcoh_of_count[OF nz count_poloidal])
      (simp_all add: dict_sel kw_get_def sel_ex lin1 pw1 pwh)
  have nz': "R_BLR (dict_update [''Rmax'' \<mapsto> 5] st_ex) \<noteq> 0"
    by (simp add: dict_sel kw_get_def sel_ex)
  have c: "map_option Nd (returned (update_params [''Rmax'' \<mapsto> 5] st_ex)) = Some 2"
    by (rule Nd_of_count[OF nz' count_coarse]) simp
  have d: "map_option Lcoh (returned (update_params [''Rmax'' \<mapsto> 5] st_ex)) = Some [3, 12]"
    by (subst Lcoh_of_count[OF nz' count_coarse])
      (simp_all add: dict_sel kw_get_def sel_ex lin1 pw1 pw2)
  from a b c d show ?thesis by (simp add: dict_sel kw_get_def sel_ex)
qed

section \<open>The degenerate mixing angle\<close>

text \<open>
  Claim C6, as amended: on a configured object \<^verbatim>\<open>__setDeltas\<close> raises nothing and computes
  the mixing angle of every domain by the unguarded numpy division of line 152. Where
  \<open>Dpar\<close> equals \<open>Da\<close>, the quotient is an infinity with the sign of \<open>Dag\<close> and the angle is
  \<open>\<plusminus>\<pi>/4\<close> if \<open>Dag\<close> is not zero; if \<open>Dag\<close> is zero too, the quotient \<open>0/0\<close> and the angle are
  \<open>nan\<close>, and the propagation returns normally with \<open>nan\<close> in its result.
\<close>

theorem degenerate_mixing_angle:
  assumes "update_params kw self0 = Returned self" and "i < nat (Nd self)"
  shows "\<exists>s1. setDeltas D self = Returned s1
           \<and> alph s1 ! i
               = xscale (1 / 2) (np_arctan (np_divide (2 * Dag s1 ! i) (Dpar s1 ! i - Da s1 ! i)))
           \<and> (Dpar s1 ! i = Da s1 ! i \<longrightarrow>
                alph s1 ! i = (if 0 < Dag s1 ! i then Fin (pi / 4)
                               else if Dag s1 ! i < 0 then Fin (- (pi / 4)) else NaN))
           \<and> (Dpar s1 ! i = Da s1 ! i \<and> Dag s1 ! i = 0 \<longrightarrow>
                alph s1 ! i = NaN \<and> SetDomainN D self = ReturnedNaN)"
proof -
  from setDeltas_alph[OF assms] obtain s1 where s1: "setDeltas D self = Returned s1"
    "length (alph s1) = nat (Nd self)"
    "alph s1 ! i = mixing_angle (Dag s1 ! i) (Dpar s1 ! i) (Da s1 ! i)"
    by blast
  have a: "alph s1 ! i
      = xscale (1 / 2) (np_arctan (np_divide (2 * Dag s1 ! i) (Dpar s1 ! i - Da s1 ! i)))"
    by (simp only: s1(3) mixing_angle_def)
  have b: "Dpar s1 ! i = Da s1 ! i \<longrightarrow>
      alph s1 ! i = (if 0 < Dag s1 ! i then Fin (pi / 4)
                     else if Dag s1 ! i < 0 then Fin (- (pi / 4)) else NaN)"
    by (simp add: s1(3) mixing_angle_degenerate)
  have c: "Dpar s1 ! i = Da s1 ! i \<and> Dag s1 ! i = 0 \<longrightarrow>
      alph s1 ! i = NaN \<and> SetDomainN D self = ReturnedNaN"
  proof
    assume h: "Dpar s1 ! i = Da s1 ! i \<and> Dag s1 ! i = 0"
    then have n: "alph s1 ! i = NaN" by (simp add: s1(3) mixing_angle_degenerate)
    have "i < length (alph s1)" using assms(2) by (simp add: s1(2))
    from SetDomainN_NaN[OF s1(1) this n] n
    show "alph s1 ! i = NaN \<and> SetDomainN D self = ReturnedNaN" by simp
  qed
  from s1(1) a b c show ?thesis by blast
qed

text \<open>
  The witness of C6: no field, no coupling and no mass (\<open>B = 0\<close>, \<open>g = 0\<close>, \<open>m = 0\<close>,
  \<open>n = 0\<close>), where all four terms vanish in both domains.
\<close>

theorem degenerate_mixing_angle_witness:
  "update_params [''g'' \<mapsto> 0, ''m'' \<mapsto> 0, ''B'' \<mapsto> 0] st_ex = Returned st_deg
   \<and> (0::nat) < nat (Nd st_deg)
   \<and> (\<exists>s1. setDeltas deltas_ex st_deg = Returned s1
         \<and> Dpar s1 ! 0 = Da s1 ! 0 \<and> Dag s1 ! 0 = 0
         \<and> alph s1 ! 0 = NaN \<and> SetDomainN deltas_ex st_deg = ReturnedNaN)"
proof -
  have i: "(0::nat) < nat (Nd st_deg)" by (simp add: st_deg_def Nd_st_ex)
  obtain s1 where s1: "setDeltas deltas_ex st_deg = Returned s1" "Dpar s1 = [0, 0]"
    "Da s1 = [0, 0]" "Dag s1 = [0, 0]"
    using setDeltas_deg by blast
  from degenerate_mixing_angle[OF upd_deg i, of deltas_ex] s1
  have "alph s1 ! 0 = NaN \<and> SetDomainN deltas_ex st_deg = ReturnedNaN" by auto
  with upd_deg i s1 show ?thesis by auto
qed

text \<open>
  The counterexample to C6 as it is stated: in that configuration \<open>Dpar = Da\<close> in both
  domains; \<^verbatim>\<open>__setDeltas\<close> returns normally with the mixing angles \<open>nan\<close>, and
  \<^verbatim>\<open>SetDomainN\<close> returns normally with \<open>nan\<close> in its arrays.
\<close>

theorem degenerate_mixing_angle_counterexample:
  "update_params [''g'' \<mapsto> 0, ''m'' \<mapsto> 0, ''B'' \<mapsto> 0] st_ex = Returned st_deg
   \<and> map_option Dpar (returned (setDeltas deltas_ex st_deg)) = Some [0, 0]
   \<and> map_option Da (returned (setDeltas deltas_ex st_deg)) = Some [0, 0]
   \<and> map_option Dag (returned (setDeltas deltas_ex st_deg)) = Some [0, 0]
   \<and> map_option alph (returned (setDeltas deltas_ex st_deg)) = Some [NaN, NaN]
   \<and> SetDomainN deltas_ex st_deg = ReturnedNaN"
proof -
  obtain s1 where s1: "setDeltas deltas_ex st_deg = Returned s1" "Dpar s1 = [0, 0]"
    "Da s1 = [0, 0]" "Dag s1 = [0, 0]" "alph s1 = [NaN, NaN]"
    using setDeltas_deg by blast
  have "SetDomainN deltas_ex st_deg = ReturnedNaN"
    by (rule SetDomainN_NaN[OF s1(1), of 0]) (simp_all add: s1(5))
  with upd_deg s1 show ?thesis by simp
qed

section \<open>The order of the chained product\<close>

text \<open>
  Claim C1, as amended: for every configuration yielding \<open>Nd \<ge> 1\<close> domains, \<^verbatim>\<open>SetDomainN\<close>
  raises nothing. If none of the \<open>Nd\<close> mixing angles that \<^verbatim>\<open>__setEW\<close> computes is \<open>nan\<close>,
  it returns the matrix product \<open>Un[0] Un[1] \<dots> Un[Nd-1]\<close> of the \<open>Nd\<close> propagators in the
  order of the domain index: the propagator of the innermost domain (the one at \<open>R_BLR\<close>)
  stands leftmost, as the comment in the loop says (\<^verbatim>\<open>first matrix on the left\<close>). If one
  of the mixing angles is \<open>nan\<close>, and only then, it returns normally with \<open>nan\<close> in its
  result.
\<close>

theorem chain_order:
  assumes "update_params kw self0 = Returned self" and "1 \<le> Nd self"
  shows "\<exists>s1. setEW D self = Returned s1 \<and> length (alph s1) = nat (Nd self)
           \<and> (if NaN \<in> set (alph s1) then SetDomainN D self = ReturnedNaN
               else (\<exists>U self'. SetDomainN D self = Returned (U, self')
                       \<and> alph self' = alph s1
                       \<and> length (propagators self') = nat (Nd self)
                       \<and> U = matrix_product (propagators self')))"
proof -
  obtain s1 where s1: "setEW D self = Returned s1"
    using setEW_returns[OF assms(1)] by blast
  have len: "length (alph s1) = nat (Nd self)"
    by (rule setEW_Returned(7)[OF assms(1) s1])
  show ?thesis
  proof (cases "NaN \<in> set (alph s1)")
    case True
    then have "\<not> list_all is_Fin (alph s1)" by (simp add: setEW_all_Fin[OF s1])
    from SetDomainN_not_Fin[OF s1 this] s1 len True show ?thesis by auto
  next
    case False
    then have fin: "list_all is_Fin (alph s1)" by (simp add: setEW_all_Fin[OF s1])
    have "0 < Nd self" using assms(2) by simp
    from SetDomainN_returns[OF assms(1) this s1 fin]
    obtain U self' where run: "SetDomainN D self = Returned (U, self')" by blast
    note v = SetDomainN_value[OF assms run]
    have p: "length (propagators self') = nat (Nd self)"
      by (simp add: propagators_def v(1))
    obtain t1 where t1: "setEW D self = Returned t1" "alph self' = alph t1"
      using SetDomainN_frame[OF assms(1) run] by blast
    from t1 s1 have a: "alph self' = alph s1" by simp
    from run a p v(2) have "\<exists>U self'. SetDomainN D self = Returned (U, self')
                       \<and> alph self' = alph s1
                       \<and> length (propagators self') = nat (Nd self)
                       \<and> U = matrix_product (propagators self')" by blast
    with s1 len False show ?thesis by auto
  qed
qed

text \<open>
  The witness of C1: the two domains of the configuration \<open>kw_ex\<close>, where both mixing
  angles are finite, and the configuration without field, coupling and mass, where they
  are \<open>nan\<close>.
\<close>

theorem chain_order_witness:
  "update_params kw_ex blank = Returned st_ex \<and> 1 \<le> Nd st_ex
   \<and> (\<exists>s1. setEW deltas_ex st_ex = Returned s1 \<and> NaN \<notin> set (alph s1)
         \<and> (\<exists>U self'. SetDomainN deltas_ex st_ex = Returned (U, self')
               \<and> alph self' = alph s1
               \<and> length (propagators self') = nat (Nd st_ex)
               \<and> U = matrix_product (propagators self')))
   \<and> update_params [''g'' \<mapsto> 0, ''m'' \<mapsto> 0, ''B'' \<mapsto> 0] st_ex = Returned st_deg
   \<and> 1 \<le> Nd st_deg
   \<and> (\<exists>s1. setEW deltas_ex st_deg = Returned s1 \<and> NaN \<in> set (alph s1)
         \<and> SetDomainN deltas_ex st_deg = ReturnedNaN)"
proof -
  have n: "1 \<le> Nd st_ex" by (simp add: Nd_st_ex)
  have nd: "1 \<le> Nd st_deg" by (simp add: st_deg_def Nd_st_ex)
  from chain_order[OF upd_ex n, of deltas_ex]
  obtain s1 where s1: "setEW deltas_ex st_ex = Returned s1"
    and c1: "if NaN \<in> set (alph s1) then SetDomainN deltas_ex st_ex = ReturnedNaN
               else (\<exists>U self'. SetDomainN deltas_ex st_ex = Returned (U, self')
                       \<and> alph self' = alph s1
                       \<and> length (propagators self') = nat (Nd st_ex)
                       \<and> U = matrix_product (propagators self'))"
    by blast
  have f1: "NaN \<notin> set (alph s1)" by (simp add: setEW_ex(1)[OF s1])
  from chain_order[OF upd_deg nd, of deltas_ex]
  obtain s2 where s2: "setEW deltas_ex st_deg = Returned s2"
    and c2: "if NaN \<in> set (alph s2) then SetDomainN deltas_ex st_deg = ReturnedNaN
               else (\<exists>U self'. SetDomainN deltas_ex st_deg = Returned (U, self')
                       \<and> alph self' = alph s2
                       \<and> length (propagators self') = nat (Nd st_deg)
                       \<and> U = matrix_product (propagators self'))"
    by blast
  obtain d1 where d1: "setDeltas deltas_ex st_deg = Returned d1" "alph d1 = [NaN, NaN]"
    using setDeltas_deg by blast
  obtain e1 where e1: "setEW deltas_ex st_deg = Returned e1" "alph e1 = alph d1"
    using setEW_alph[OF d1(1)] by blast
  from e1 s2 d1(2) have f2: "NaN \<in> set (alph s2)" by simp
  from c1 f1 have r1: "\<exists>U self'. SetDomainN deltas_ex st_ex = Returned (U, self')
                       \<and> alph self' = alph s1
                       \<and> length (propagators self') = nat (Nd st_ex)
                       \<and> U = matrix_product (propagators self')" by simp
  from c2 f2 have r2: "SetDomainN deltas_ex st_deg = ReturnedNaN" by simp
  from upd_ex n s1 f1 r1 upd_deg nd s2 f2 r2 show ?thesis by blast
qed

text \<open>
  The counterexample to C1 as it is stated: for the configuration \<open>kw_ex\<close> and the
  collaborators \<open>deltas_ex\<close> the propagation returns a matrix, and it differs from the product
  \<open>Un[1] Un[0]\<close> in the reversed order: the two propagators do not commute, since their
  mixing angles differ and neither has equal phases on its two mixed eigenstates.
\<close>

theorem chain_order_counterexample:
  "update_params kw_ex blank = Returned st_ex \<and> Nd st_ex = 2
   \<and> returned (SetDomainN deltas_ex st_ex) \<noteq> None
   \<and> map_option fst (returned (SetDomainN deltas_ex st_ex))
       \<noteq> map_option (matrix_product \<circ> rev \<circ> propagators \<circ> snd)
                      (returned (SetDomainN deltas_ex st_ex))"
proof -
  obtain U self' where run: "SetDomainN deltas_ex st_ex = Returned (U, self')"
    using run_ex by blast
  have n: "1 \<le> Nd st_ex" by (simp add: Nd_st_ex)
  note v = SetDomainN_value[OF upd_ex n run]
  have p: "propagators self' = [slice (Un_attr self') 0, slice (Un_attr self') 1]"
    by (simp add: propagators_def v(1) Nd_st_ex upt_rec[of 0] upt_rec[of 1] eval_nat_numeral)
  have a: "U = dot (slice (Un_attr self') 0) (slice (Un_attr self') 1)"
    by (simp add: v(2) p matrix_product_def dot_identity3)
  have b: "matrix_product (rev (propagators self'))
             = dot (slice (Un_attr self') 1) (slice (Un_attr self') 0)"
    by (simp add: p matrix_product_def dot_identity3)
  have "U \<noteq> matrix_product (rev (propagators self'))"
    using propagators_ex_differ[OF run] unfolding a b by auto
  then show ?thesis using upd_ex run by (simp add: Nd_st_ex)
qed

section \<open>The single-step estimator changes no attribute\<close>

text \<open>
  Claim C10: \<^verbatim>\<open>analytical_U\<close> leaves every attribute of the object as it was, whether
  it returns a matrix, returns one holding \<open>nan\<close>, or raises: the object after the call is
  the object before it. What it returns is read from the attributes \<open>g\<close>, \<open>B\<close>, \<open>p\<close>,
  \<open>R_BLR\<close> and \<open>Rmax\<close> only: two objects that agree on these five get the same outcome.
\<close>

theorem analytical_U_frame:
  "snd (analytical_U D self) = self
   \<and> (g_attr other = g_attr self \<and> B_attr other = B_attr self \<and> p_attr other = p_attr self
        \<and> R_BLR other = R_BLR self \<and> Rmax other = Rmax self
      \<longrightarrow> fst (analytical_U D other) = fst (analytical_U D self))"
  by (simp add: analytical_U_def Let_def Bf_def)

text \<open>The witness of C10: the object \<open>st_ex\<close> and a copy with another energy and
  another angle \<open>Psi\<close>.\<close>

theorem analytical_U_frame_witness:
  "g_attr (st_ex\<lparr>E_attr := 5, Psi := 1\<rparr>) = g_attr st_ex
   \<and> B_attr (st_ex\<lparr>E_attr := 5, Psi := 1\<rparr>) = B_attr st_ex
   \<and> p_attr (st_ex\<lparr>E_attr := 5, Psi := 1\<rparr>) = p_attr st_ex
   \<and> R_BLR (st_ex\<lparr>E_attr := 5, Psi := 1\<rparr>) = R_BLR st_ex
   \<and> Rmax (st_ex\<lparr>E_attr := 5, Psi := 1\<rparr>) = Rmax st_ex
   \<and> snd (analytical_U deltas_ex st_ex) = st_ex
   \<and> fst (analytical_U deltas_ex (st_ex\<lparr>E_attr := 5, Psi := 1\<rparr>))
        = fst (analytical_U deltas_ex st_ex)"
  using analytical_U_frame[of deltas_ex st_ex "st_ex\<lparr>E_attr := 5, Psi := 1\<rparr>"] by simp

end
